theory Spec2Isabelle
  imports Complex_Main
begin

section \<open>Go values used by api/pod.go\<close>

text \<open>
  A slice or a map of Go is either nil or allocated: \<open>None\<close> is nil, \<open>Some xs\<close> an
  allocated slice or map. A pointer \<open>*T\<close> is \<open>T option\<close> in the same way. Go's \<open>int\<close> is
  read as \<open>int\<close> and \<open>float32\<close>/\<open>float64\<close> as \<open>real\<close>: the file only carries these
  numbers around and never computes with them. Their ranges matter where the decoder
  reads them from the body, and are written out there (\<open>ParseInt\<close>, \<open>ParseFloat32\<close>).
\<close>

type_synonym 'a slice = "'a list option"

definition len :: "'a slice \<Rightarrow> nat" where
  "len s = (case s of None \<Rightarrow> 0 | Some xs \<Rightarrow> length xs)"

text \<open>\<open>s[i]\<close>: \<open>None\<close> is the run-time panic "index out of range".\<close>

definition elem_at :: "'a slice \<Rightarrow> nat \<Rightarrow> 'a option" where
  "elem_at s i = (case s of None \<Rightarrow> None | Some xs \<Rightarrow> (if i < length xs then Some (xs ! i) else None))"

text \<open>
  What \<open>json.Unmarshal\<close> stores in an \<open>interface{}\<close>: nil, bool, float64, string,
  \<open>[]interface{}\<close> and \<open>map[string]interface{}\<close>. A map is kept as an association list read
  with \<open>map_of\<close>.
\<close>

datatype iface =
    INil
  | IBool bool
  | IFloat64 real
  | IString string
  | ISlice "iface list"
  | IMap "(string \<times> iface) list"

text \<open>A variable of type \<open>map[string]interface{}\<close>: nil or a map.\<close>

type_synonym gomap = "(string \<times> iface) list option"

text \<open>\<open>m[k]\<close>: the zero value nil when the key is missing, also on a nil map.\<close>

definition index :: "gomap \<Rightarrow> string \<Rightarrow> iface" where
  "index m k = (case m of None \<Rightarrow> INil
                | Some kvs \<Rightarrow> (case map_of kvs k of None \<Rightarrow> INil | Some v \<Rightarrow> v))"

text \<open>\<open>_, ok = m[k]\<close>: whether the key is present.\<close>

definition index_ok :: "gomap \<Rightarrow> string \<Rightarrow> bool" where
  "index_ok m k = (case m of None \<Rightarrow> False
                   | Some kvs \<Rightarrow> (case map_of kvs k of None \<Rightarrow> False | Some v \<Rightarrow> True))"

text \<open>\<open>v, ok := x.([]interface{})\<close> and \<open>v, ok := x.(map[string]interface{})\<close>: on a
  mismatch the zero value (nil) and false.\<close>

definition assert_slice :: "iface \<Rightarrow> iface slice \<times> bool" where
  "assert_slice x = (case x of ISlice xs \<Rightarrow> (Some xs, True) | _ \<Rightarrow> (None, False))"

definition assert_map :: "iface \<Rightarrow> gomap \<times> bool" where
  "assert_map x = (case x of IMap kvs \<Rightarrow> (Some kvs, True) | _ \<Rightarrow> (None, False))"

text \<open>\<open>x.(string)\<close> in its one-value form: \<open>None\<close> is the run-time panic
  "interface conversion".\<close>

definition assert_string :: "iface \<Rightarrow> string option" where
  "assert_string x = (case x of IString s \<Rightarrow> Some s | _ \<Rightarrow> None)"

text \<open>\<open>strings.Split(s, sep)\<close> for a separator of one byte, the only way the file calls
  it: the pieces of \<open>s\<close> between the separators, at least one piece.\<close>

fun Split :: "string \<Rightarrow> char \<Rightarrow> string list" where
  "Split [] sep = [[]]"
| "Split (c # cs) sep =
     (if c = sep then [] # Split cs sep
      else (case Split cs sep of [] \<Rightarrow> [[c]] | w # ws \<Rightarrow> (c # w) # ws))"

text \<open>The verb \<open>%d\<close> of \<open>fmt.Errorf\<close>: an integer in decimal.\<close>

fun digits :: "nat \<Rightarrow> string" where
  "digits n = (if n < 10 then [''0123456789'' ! n]
               else digits (n div 10) @ [''0123456789'' ! (n mod 10)])"

declare digits.simps [simp del]

definition itoa :: "int \<Rightarrow> string" where
  "itoa i = (if i < 0 then CHR ''-'' # digits (nat (- i)) else digits (nat i))"

section \<open>Errors, panics and results\<close>

text \<open>
  Every error the file returns, by the statement that makes it. The first three pass on
  the error of \<open>Query\<close>, \<open>io.ReadAll\<close> and \<open>json.Unmarshal\<close> (kept as its message); the others
  are built with \<open>fmt.Errorf\<close> or \<open>errors.New\<close>, and \<open>Error\<close> is their message.
\<close>

datatype error =
    ErrQuery string
  | ErrReadAll string
  | ErrUnmarshal string
  | ErrStatusCode int
  | ErrStatusCodeBody int string
  | ErrPodBidResumeStatusCode int
  | ErrGraphQL string
  | ErrIsNil string string

fun Error :: "error \<Rightarrow> string" where
  "Error (ErrQuery msg) = msg"
| "Error (ErrReadAll msg) = msg"
| "Error (ErrUnmarshal msg) = msg"
| "Error (ErrStatusCode code) = ''statuscode '' @ itoa code"
| "Error (ErrStatusCodeBody code raw) = ''statuscode '' @ itoa code @ '': '' @ raw"
| "Error (ErrPodBidResumeStatusCode code) = ''PodBidResume: statuscode '' @ itoa code"
| "Error (ErrGraphQL msg) = msg"
| "Error (ErrIsNil what raw) = what @ '' is nil: '' @ raw"

datatype panic = NilPointerDereference | InterfaceConversion | IndexOutOfRange

text \<open>A call either returns its two results, the value and \<open>err\<close> (\<open>None\<close> is a nil
  error), or panics.\<close>

datatype 'a outcome = Return 'a "error option" | Panic panic

section \<open>The types of the file\<close>

record GraphQLError =
  Message :: string

record Machine =
  GpuDisplayName :: string

record Pod =
  Id :: string
  ContainerDiskInGb :: int
  CostPerHr :: real
  DesiredStatus :: string
  DockerArgs :: string
  Env :: "string slice"
  GpuCount :: int
  ImageName :: string
  MemoryInGb :: int
  Name :: string
  PodType :: string
  Ports :: string
  VcpuCount :: int
  VolumeInGb :: int
  VolumeMountPath :: string
  Machine :: "Machine option"

record MySelfData =
  Pods :: "Pod option slice"

record PodData =
  Myself :: "MySelfData option"

record PodOut =
  Data :: "PodData option"
  Errors :: "GraphQLError option slice"

record PodEnv =
  Key :: string
  Value :: string

record CreatePodInput =
  CloudType :: string
  ContainerDiskInGb :: int
  DeployCost :: real
  DockerArgs :: string
  Env :: "PodEnv option slice"
  GpuCount :: int
  GpuTypeId :: string
  ImageName :: string
  MinMemoryInGb :: int
  MinVcpuCount :: int
  Name :: string
  Ports :: string
  TemplateId :: string
  VolumeInGb :: int
  VolumeMountPath :: string

section \<open>The transport and the decoder\<close>

text \<open>
  Modelled from the spec: the type \<open>Input\<close> and the function \<open>Query\<close> are declared in
  another file of the package. The spec gives the transport as
  \<open>execute(document, variables) -> (status, bodyStream) | transportError\<close>. \<open>Input\<close> has the
  two fields the file sets; a document is one of the six literal texts of the file, named
  here after its operation; a variable holds what the file binds: a string, a float32 or
  the \<open>*CreatePodInput\<close> as it is when \<open>Query\<close> is called.
\<close>

datatype document =
    doc_myPods
  | doc_createPod
  | doc_stopPod
  | doc_terminatePod
  | doc_podResume
  | doc_Mutation

datatype variable =
    VString string
  | VFloat32 real
  | VCreatePodInput CreatePodInput

record Input =
  Query :: document
  Variables :: "(string \<times> variable) list"

text \<open>The response as the file reads it: \<open>res.StatusCode\<close>, and \<open>Body\<close> for what
  \<open>io.ReadAll(res.Body)\<close> returns, an error (\<open>Inl\<close>) or all the bytes.\<close>

record Response =
  StatusCode :: int
  Body :: "string + string"

text \<open>
  \<open>Query\<close> and \<open>json.Unmarshal\<close> are parameters of every operation below: \<open>Query'\<close> maps the
  request to a transport error or a response; \<open>Unmarshal\<close> maps the bytes of the body to
  a decoding error or to the decoded value, a \<open>PodOut\<close> for \<open>GetPods\<close> and a
  \<open>map[string]interface{}\<close> for the five mutations.
\<close>

type_synonym transport = "Input \<Rightarrow> string + Response"
type_synonym decoder = "string \<Rightarrow> string + gomap"
type_synonym pod_decoder = "string \<Rightarrow> string + PodOut"

text \<open>
  Two stand-ins used to run the operations on concrete inputs: a transport that answers
  every request alike, and a decoder given by a table of bodies and their decoded values
  (any other body is a syntax error).
\<close>

definition constant_transport :: "string + Response \<Rightarrow> transport" where
  "constant_transport r input = r"

definition table_decoder :: "(string \<times> 'a) list \<Rightarrow> string \<Rightarrow> string + 'a" where
  "table_decoder tbl raw =
     (case map_of tbl raw of None \<Rightarrow> Inl ''invalid character'' | Some v \<Rightarrow> Inr v)"

text \<open>A transport that fails on every request, with the \<open>Name\<close> it finds in the struct bound
  to the variable \<open>input\<close> as the message of its error: it shows what a request carries.\<close>

definition name_reporting_transport :: transport where
  "name_reporting_transport input =
     Inl (case map_of (Variables input) ''input'' of
            Some (VCreatePodInput podInput) \<Rightarrow> Name podInput
          | _ \<Rightarrow> [])"

text \<open>The zero value \<open>CreatePodInput{}\<close>.\<close>

definition CreatePodInput_zero :: CreatePodInput where
  "CreatePodInput_zero =
     \<lparr>CloudType = [], ContainerDiskInGb = 0, DeployCost = 0, DockerArgs = [], Env = None,
      GpuCount = 0, GpuTypeId = [], ImageName = [], MinMemoryInGb = 0, MinVcpuCount = 0,
      Name = [], Ports = [], TemplateId = [], VolumeInGb = 0, VolumeMountPath = []\<rparr>"

section \<open>The six operations\<close>

text \<open>
  Each operation is written as the file has it, statement by statement. The deferred
  \<open>res.Body.Close()\<close> changes no result and is left out. The named results start at their
  zero values, so an early \<open>return\<close> gives back nil (or false) beside the error.
\<close>

subsection \<open>GetPods\<close>

definition GetPods_Input :: Input where
  "GetPods_Input = \<lparr>Query = doc_myPods, Variables = []\<rparr>"

text \<open>\<open>data\<close> is \<open>&PodOut{}\<close> and never nil, so the test \<open>data == nil\<close> of the file is
  always false. \<open>data.Errors[0].Message\<close> reads through a pointer: a nil first entry
  panics.\<close>

definition GetPods :: "transport \<Rightarrow> pod_decoder \<Rightarrow> Pod option slice outcome" where
  "GetPods Query' Unmarshal =
     (case Query' GetPods_Input of
        Inl err \<Rightarrow> Return None (Some (ErrQuery err))
      | Inr res \<Rightarrow>
          if StatusCode res \<noteq> 200 then Return None (Some (ErrStatusCode (StatusCode res)))
          else
            (case Body res of
               Inl err \<Rightarrow> Return None (Some (ErrReadAll err))
             | Inr rawData \<Rightarrow>
                 (case Unmarshal rawData of
                    Inl err \<Rightarrow> Return None (Some (ErrUnmarshal err))
                  | Inr data \<Rightarrow>
                      if len (Errors data) > 0 then
                        (case elem_at (Errors data) 0 of
                           None \<Rightarrow> Panic IndexOutOfRange
                         | Some None \<Rightarrow> Panic NilPointerDereference
                         | Some (Some e) \<Rightarrow> Return None (Some (ErrGraphQL (Message e))))
                      else
                        (case Data data of
                           None \<Rightarrow> Return None (Some (ErrIsNil ''data'' rawData))
                         | Some d \<Rightarrow>
                             (case Myself d of
                                None \<Rightarrow> Return None (Some (ErrIsNil ''data'' rawData))
                              | Some m \<Rightarrow>
                                  if Pods m = None
                                  then Return None (Some (ErrIsNil ''data'' rawData))
                                  else Return (Pods m) None)))))"

subsection \<open>CreatePod\<close>

text \<open>Lines 132 to 135: the write to \<open>podInput.Name\<close> through the pointer. \<open>names[0]\<close>
  would panic on an empty slice.\<close>

definition CreatePod_Name :: "CreatePodInput \<Rightarrow> CreatePodInput option" where
  "CreatePod_Name podInput =
     (if Name podInput = []
      then (case elem_at (Some (Split (ImageName podInput) CHR '':'')) 0 of
              None \<Rightarrow> None
            | Some n \<Rightarrow> Some (podInput\<lparr>Name := n\<rparr>))
      else Some podInput)"

definition CreatePod_Input :: "CreatePodInput \<Rightarrow> Input" where
  "CreatePod_Input podInput =
     \<lparr>Query = doc_createPod, Variables = [(''input'', VCreatePodInput podInput)]\<rparr>"

text \<open>
  The first component of the result is the caller's \<open>*podInput\<close> after the call: the
  operation writes through the pointer. A nil pointer panics at the first read.
  \<open>CreatePod\<close> reads the body before it looks at the status code.
\<close>

definition CreatePod ::
    "transport \<Rightarrow> decoder \<Rightarrow> CreatePodInput option \<Rightarrow> CreatePodInput option \<times> gomap outcome" where
  "CreatePod Query' Unmarshal podInput =
     (case podInput of
        None \<Rightarrow> (None, Panic NilPointerDereference)
      | Some p0 \<Rightarrow>
          (case CreatePod_Name p0 of
             None \<Rightarrow> (Some p0, Panic IndexOutOfRange)
           | Some p \<Rightarrow>
               (Some p,
                case Query' (CreatePod_Input p) of
                  Inl err \<Rightarrow> Return None (Some (ErrQuery err))
                | Inr res \<Rightarrow>
                    (case Body res of
                       Inl err \<Rightarrow> Return None (Some (ErrReadAll err))
                     | Inr rawData \<Rightarrow>
                         if StatusCode res \<noteq> 200
                         then Return None (Some (ErrStatusCodeBody (StatusCode res) rawData))
                         else
                           (case Unmarshal rawData of
                              Inl err \<Rightarrow> Return None (Some (ErrUnmarshal err))
                            | Inr data \<Rightarrow>
                                (case assert_slice (index data ''errors'') of
                                   (gqlErrors, ok) \<Rightarrow>
                                     if ok \<and> len gqlErrors > 0 then
                                       (case elem_at gqlErrors 0 of
                                          None \<Rightarrow> Panic IndexOutOfRange
                                        | Some first \<Rightarrow>
                                            (case assert_map first of
                                               (firstErr, _) \<Rightarrow>
                                                 (case assert_string (index firstErr ''message'') of
                                                    None \<Rightarrow> Panic InterfaceConversion
                                                  | Some msg \<Rightarrow> Return None (Some (ErrGraphQL msg)))))
                                     else
                                       (case assert_map (index data ''data'') of
                                          (gqldata, ok) \<Rightarrow>
                                            if \<not> ok \<or> gqldata = None
                                            then Return None (Some (ErrIsNil ''data'' rawData))
                                            else
                                              (case assert_map (index gqldata ''podFindAndDeployOnDemand'') of
                                                 (pod, ok) \<Rightarrow>
                                                   if \<not> ok \<or> pod = None
                                                   then Return pod (Some (ErrIsNil ''pod'' rawData))
                                                   else Return pod None))))))))"

subsection \<open>StopPod\<close>

definition StopPod_Input :: "string \<Rightarrow> Input" where
  "StopPod_Input id' = \<lparr>Query = doc_stopPod, Variables = [(''podId'', VString id')]\<rparr>"

definition StopPod :: "transport \<Rightarrow> decoder \<Rightarrow> string \<Rightarrow> gomap outcome" where
  "StopPod Query' Unmarshal id' =
     (case Query' (StopPod_Input id') of
        Inl err \<Rightarrow> Return None (Some (ErrQuery err))
      | Inr res \<Rightarrow>
          if StatusCode res \<noteq> 200 then Return None (Some (ErrStatusCode (StatusCode res)))
          else
            (case Body res of
               Inl err \<Rightarrow> Return None (Some (ErrReadAll err))
             | Inr rawData \<Rightarrow>
                 (case Unmarshal rawData of
                    Inl err \<Rightarrow> Return None (Some (ErrUnmarshal err))
                  | Inr data \<Rightarrow>
                      (case assert_slice (index data ''errors'') of
                         (gqlErrors, ok) \<Rightarrow>
                           if ok \<and> len gqlErrors > 0 then
                             (case elem_at gqlErrors 0 of
                                None \<Rightarrow> Panic IndexOutOfRange
                              | Some first \<Rightarrow>
                                  (case assert_map first of
                                     (firstErr, _) \<Rightarrow>
                                       (case assert_string (index firstErr ''message'') of
                                          None \<Rightarrow> Panic InterfaceConversion
                                        | Some msg \<Rightarrow> Return None (Some (ErrGraphQL msg)))))
                           else
                             (case assert_map (index data ''data'') of
                                (gqldata, ok) \<Rightarrow>
                                  if \<not> ok \<or> gqldata = None
                                  then Return None (Some (ErrIsNil ''data'' rawData))
                                  else
                                    (case assert_map (index gqldata ''podStop'') of
                                       (podStop, ok) \<Rightarrow>
                                         if \<not> ok \<or> podStop = None
                                         then Return podStop (Some (ErrIsNil ''podStop'' rawData))
                                         else Return podStop None))))))"

subsection \<open>RemovePod\<close>

definition RemovePod_Input :: "string \<Rightarrow> Input" where
  "RemovePod_Input id' = \<lparr>Query = doc_terminatePod, Variables = [(''podId'', VString id')]\<rparr>"

text \<open>
  The result \<open>ok\<close> is a named result, and both \<open>gqlErrors, ok := ...\<close> and
  \<open>gqldata, ok := ...\<close> stand in the block of the function body: they assign to that same
  \<open>ok\<close>. So the value returned beside an error is the \<open>ok\<close> of the last type assertion,
  and the last statement sets it to the presence of the key.
\<close>

definition RemovePod :: "transport \<Rightarrow> decoder \<Rightarrow> string \<Rightarrow> bool outcome" where
  "RemovePod Query' Unmarshal id' =
     (case Query' (RemovePod_Input id') of
        Inl err \<Rightarrow> Return False (Some (ErrQuery err))
      | Inr res \<Rightarrow>
          if StatusCode res \<noteq> 200 then Return False (Some (ErrStatusCode (StatusCode res)))
          else
            (case Body res of
               Inl err \<Rightarrow> Return False (Some (ErrReadAll err))
             | Inr rawData \<Rightarrow>
                 (case Unmarshal rawData of
                    Inl err \<Rightarrow> Return False (Some (ErrUnmarshal err))
                  | Inr data \<Rightarrow>
                      (case assert_slice (index data ''errors'') of
                         (gqlErrors, ok) \<Rightarrow>
                           if ok \<and> len gqlErrors > 0 then
                             (case elem_at gqlErrors 0 of
                                None \<Rightarrow> Panic IndexOutOfRange
                              | Some first \<Rightarrow>
                                  (case assert_map first of
                                     (firstErr, _) \<Rightarrow>
                                       (case assert_string (index firstErr ''message'') of
                                          None \<Rightarrow> Panic InterfaceConversion
                                        | Some msg \<Rightarrow> Return ok (Some (ErrGraphQL msg)))))
                           else
                             (case assert_map (index data ''data'') of
                                (gqldata, ok) \<Rightarrow>
                                  if \<not> ok \<or> gqldata = None
                                  then Return ok (Some (ErrIsNil ''data'' rawData))
                                  else Return (index_ok gqldata ''podTerminate'') None)))))"

subsection \<open>StartOnDemandPod\<close>

definition StartOnDemandPod_Input :: "string \<Rightarrow> Input" where
  "StartOnDemandPod_Input id' = \<lparr>Query = doc_podResume, Variables = [(''podId'', VString id')]\<rparr>"

definition StartOnDemandPod :: "transport \<Rightarrow> decoder \<Rightarrow> string \<Rightarrow> gomap outcome" where
  "StartOnDemandPod Query' Unmarshal id' =
     (case Query' (StartOnDemandPod_Input id') of
        Inl err \<Rightarrow> Return None (Some (ErrQuery err))
      | Inr res \<Rightarrow>
          if StatusCode res \<noteq> 200 then Return None (Some (ErrPodBidResumeStatusCode (StatusCode res)))
          else
            (case Body res of
               Inl err \<Rightarrow> Return None (Some (ErrReadAll err))
             | Inr rawData \<Rightarrow>
                 (case Unmarshal rawData of
                    Inl err \<Rightarrow> Return None (Some (ErrUnmarshal err))
                  | Inr data \<Rightarrow>
                      (case assert_slice (index data ''errors'') of
                         (gqlErrors, ok) \<Rightarrow>
                           if ok \<and> len gqlErrors > 0 then
                             (case elem_at gqlErrors 0 of
                                None \<Rightarrow> Panic IndexOutOfRange
                              | Some first \<Rightarrow>
                                  (case assert_map first of
                                     (firstErr, _) \<Rightarrow>
                                       (case assert_string (index firstErr ''message'') of
                                          None \<Rightarrow> Panic InterfaceConversion
                                        | Some msg \<Rightarrow> Return None (Some (ErrGraphQL msg)))))
                           else
                             (case assert_map (index data ''data'') of
                                (gqldata, ok) \<Rightarrow>
                                  if \<not> ok \<or> gqldata = None
                                  then Return None (Some (ErrIsNil ''data'' rawData))
                                  else
                                    (case assert_map (index gqldata ''podResume'') of
                                       (pod, ok) \<Rightarrow>
                                         if \<not> ok \<or> pod = None
                                         then Return pod (Some (ErrIsNil ''pod'' rawData))
                                         else Return pod None))))))"

subsection \<open>StartSpotPod\<close>

definition StartSpotPod_Input :: "string \<Rightarrow> real \<Rightarrow> Input" where
  "StartSpotPod_Input id' bidPerGpu =
     \<lparr>Query = doc_Mutation,
      Variables = [(''podId'', VString id'), (''bidPerGpu'', VFloat32 bidPerGpu)]\<rparr>"

definition StartSpotPod :: "transport \<Rightarrow> decoder \<Rightarrow> string \<Rightarrow> real \<Rightarrow> gomap outcome" where
  "StartSpotPod Query' Unmarshal id' bidPerGpu =
     (case Query' (StartSpotPod_Input id' bidPerGpu) of
        Inl err \<Rightarrow> Return None (Some (ErrQuery err))
      | Inr res \<Rightarrow>
          if StatusCode res \<noteq> 200 then Return None (Some (ErrPodBidResumeStatusCode (StatusCode res)))
          else
            (case Body res of
               Inl err \<Rightarrow> Return None (Some (ErrReadAll err))
             | Inr rawData \<Rightarrow>
                 (case Unmarshal rawData of
                    Inl err \<Rightarrow> Return None (Some (ErrUnmarshal err))
                  | Inr data \<Rightarrow>
                      (case assert_slice (index data ''errors'') of
                         (gqlErrors, ok) \<Rightarrow>
                           if ok \<and> len gqlErrors > 0 then
                             (case elem_at gqlErrors 0 of
                                None \<Rightarrow> Panic IndexOutOfRange
                              | Some first \<Rightarrow>
                                  (case assert_map first of
                                     (firstErr, _) \<Rightarrow>
                                       (case assert_string (index firstErr ''message'') of
                                          None \<Rightarrow> Panic InterfaceConversion
                                        | Some msg \<Rightarrow> Return None (Some (ErrGraphQL msg)))))
                           else
                             (case assert_map (index data ''data'') of
                                (gqldata, ok) \<Rightarrow>
                                  if \<not> ok \<or> gqldata = None
                                  then Return None (Some (ErrIsNil ''data'' rawData))
                                  else
                                    (case assert_map (index gqldata ''podBidResume'') of
                                       (podBidResume, ok) \<Rightarrow>
                                         if \<not> ok \<or> podBidResume = None
                                         then Return podBidResume (Some (ErrIsNil ''podBidResume'' rawData))
                                         else Return podBidResume None))))))"

section \<open>Sample bodies\<close>

text \<open>
  The bodies used below to run the operations, with what \<open>json.Unmarshal\<close> makes of each:
  into a \<open>map[string]interface{}\<close> for the mutations, into a \<open>PodOut\<close> for \<open>GetPods\<close>. The
  two tables are stand-ins for the decoder on these bodies only, and no operation below is
  run on another body. The messages of the decoder's errors are abbreviated.
\<close>

definition body_errors :: string where
  \<open>body_errors = ''{"errors":[{"message":"A"},{"message":"B"}],"data":null}''\<close>

definition body_key_null :: string where
  \<open>body_key_null = ''{"data":{"podTerminate":null}}''\<close>

definition body_key_absent :: string where
  \<open>body_key_absent = ''{"data":{}}''\<close>

definition body_key_scalar :: string where
  \<open>body_key_scalar = ''{"data":{"podStop":5}}''\<close>

definition body_error_null :: string where
  \<open>body_error_null = ''{"errors":[null]}''\<close>

definition body_error_string :: string where
  \<open>body_error_string = ''{"errors":["boom"]}''\<close>

definition body_error_number :: string where
  \<open>body_error_number = ''{"errors":[{"message":5}]}''\<close>

definition body_pods :: string where
  \<open>body_pods = ''{"data":{"myself":{"pods":[{"id":"p1","gpuCount":2,"machine":{"gpuDisplayName":"A100"}},{"id":"p2","name":"n2"}]}}}''\<close>

definition body_pods_scalar :: string where
  \<open>body_pods_scalar = ''{"data":{"myself":{"pods":5}}}''\<close>

definition sample_decoder :: decoder where
  "sample_decoder = table_decoder
     [(body_errors,
         Some [(''errors'', ISlice [IMap [(''message'', IString ''A'')],
                                    IMap [(''message'', IString ''B'')]]),
               (''data'', INil)]),
      (body_key_null, Some [(''data'', IMap [(''podTerminate'', INil)])]),
      (body_key_absent, Some [(''data'', IMap [])]),
      (body_key_scalar, Some [(''data'', IMap [(''podStop'', IFloat64 5)])]),
      (body_error_null, Some [(''errors'', ISlice [INil])]),
      (body_error_string, Some [(''errors'', ISlice [IString ''boom''])]),
      (body_error_number, Some [(''errors'', ISlice [IMap [(''message'', IFloat64 5)]])]),
      (body_pods_scalar,
         Some [(''data'', IMap [(''myself'', IMap [(''pods'', IFloat64 5)])])])]"

definition Pod_zero :: Pod where
  "Pod_zero =
     \<lparr>Id = [], Pod.ContainerDiskInGb = 0, CostPerHr = 0, DesiredStatus = [],
      Pod.DockerArgs = [], Pod.Env = None, Pod.GpuCount = 0, Pod.ImageName = [],
      MemoryInGb = 0, Pod.Name = [], PodType = [], Pod.Ports = [], VcpuCount = 0,
      Pod.VolumeInGb = 0, Pod.VolumeMountPath = [], Machine = None\<rparr>"

definition sample_pods :: "Pod option list" where
  "sample_pods =
     [Some (Pod_zero\<lparr>Id := ''p1'', Pod.GpuCount := 2,
                      Machine := Some \<lparr>GpuDisplayName = ''A100''\<rparr>\<rparr>),
      Some (Pod_zero\<lparr>Id := ''p2'', Pod.Name := ''n2''\<rparr>)]"

text \<open>
  Into a \<open>PodOut\<close>, a key that names no field is passed over, so the three bodies whose
  \<open>data\<close> has no \<open>myself\<close> decode to a \<open>PodData\<close> with a nil \<open>Myself\<close>; a number where the
  slice \<open>Pods\<close> is expected is a type error of the decoder.
\<close>

definition sample_pod_decoder :: pod_decoder where
  "sample_pod_decoder raw =
     (case map_of
        [(body_errors,
            Inr \<lparr>Data = None,
                  Errors = Some [Some \<lparr>Message = ''A''\<rparr>, Some \<lparr>Message = ''B''\<rparr>]\<rparr>),
         (body_pods,
            Inr \<lparr>Data = Some \<lparr>Myself = Some \<lparr>Pods = Some sample_pods\<rparr>\<rparr>, Errors = None\<rparr>),
         (body_key_null, Inr \<lparr>Data = Some \<lparr>Myself = None\<rparr>, Errors = None\<rparr>),
         (body_key_absent, Inr \<lparr>Data = Some \<lparr>Myself = None\<rparr>, Errors = None\<rparr>),
         (body_key_scalar, Inr \<lparr>Data = Some \<lparr>Myself = None\<rparr>, Errors = None\<rparr>),
         (body_error_null, Inr \<lparr>Data = None, Errors = Some [None]\<rparr>),
         (body_pods_scalar, Inl ''json: cannot unmarshal number'')]
        raw of
        None \<Rightarrow> Inl ''invalid character''
      | Some r \<Rightarrow> r)"

section \<open>json.Unmarshal into a PodOut\<close>

text \<open>
  What follows models \<open>json.Unmarshal(rawData, data)\<close> of \<open>GetPods\<close> (line 94) as the
  declarations of lines 11 to 44 direct it: \<open>PodOut\<close> has the tags \<open>data\<close> and \<open>errors\<close>, the
  other structs have no tags, so their keys are the names of their fields.

  The decoder first checks the syntax of the whole body and then reads it value by
  value. A document that passed the check is a \<open>json\<close>: strings and keys are those of the
  text after unquoting, the members of an object stand in the order of the text (a key may
  occur more than once), and a number is its literal: the sign, the digits of the integer
  and fraction parts read as one natural number, the count of fraction digits (0 when
  the literal has no fraction part) and the exponent (\<open>None\<close> when it has no exponent part).
  So \<open>0.1\<close> is coefficient 1 with 1 fraction digit, and \<open>-25e3\<close> is negative, coefficient
  25, exponent 3.
\<close>

record number =
  negative :: bool
  coefficient :: nat
  fraction_digits :: nat
  exponent :: "int option"

datatype json =
    JNull
  | JBool bool
  | JNumber number
  | JString string
  | JArray "json list"
  | JObject "(string \<times> json) list"

















subsection \<open>The structs\<close>















subsection \<open>The pod objects of a response\<close>








subsection \<open>Sample responses to the query\<close>













section \<open>Facts about the Go primitives\<close>

lemma Split_not_Nil: "Split s sep \<noteq> []"
  by (induction s) (auto split: list.splits)

lemma hd_Split: "hd (Split s sep) = takeWhile (\<lambda>c. c \<noteq> sep) s"
  by (induction s) (auto simp: Split_not_Nil split: list.splits)

lemma Split_no_sep: "w \<in> set (Split s sep) \<Longrightarrow> sep \<notin> set w"
  by (induction s arbitrary: w) (auto split: list.splits if_splits)

lemma first_piece: "elem_at (Some (Split s sep)) 0 = Some (takeWhile (\<lambda>c. c \<noteq> sep) s)"
  using Split_not_Nil [of s sep] hd_Split [of s sep]
  by (cases "Split s sep") (auto simp: elem_at_def)

lemma CreatePod_Name_eq:
  "CreatePod_Name p =
     Some (if Name p = [] then p\<lparr>Name := takeWhile (\<lambda>c. c \<noteq> CHR '':'') (ImageName p)\<rparr> else p)"
  by (simp add: CreatePod_Name_def first_piece)

lemma errors_guard_true:
  "x = ISlice (e # es) \<Longrightarrow>
   assert_slice x = (Some (e # es), True) \<and> len (Some (e # es)) > 0 \<and>
   elem_at (Some (e # es)) 0 = Some e"
  by (simp add: assert_slice_def len_def elem_at_def)

lemma errors_guard_false:
  assumes "\<forall>e es. x \<noteq> ISlice (e # es)" and "assert_slice x = (g, ok)"
  shows "\<not> (ok \<and> len g > 0)"
proof (cases x)
  case (ISlice xs)
  with assms(1) have "xs = []" by (cases xs) auto
  with ISlice assms(2) show ?thesis by (auto simp: assert_slice_def len_def)
qed (use assms(2) in \<open>auto simp: assert_slice_def\<close>)

lemma first_error_message:
  "map_of kvs ''message'' = Some (IString msg) \<Longrightarrow>
   assert_map (IMap kvs) = (Some kvs, True) \<and>
   assert_string (index (Some kvs) ''message'') = Some msg"
  by (simp add: assert_map_def assert_string_def index_def)

lemma first_error_panics:
  "\<not> (\<exists>kvs s. e = IMap kvs \<and> map_of kvs ''message'' = Some (IString s)) \<Longrightarrow>
   assert_map e = (m, ok) \<Longrightarrow> assert_string (index m ''message'') = None"
  by (cases e)
     (auto simp: assert_string_def assert_map_def index_def split: iface.splits option.splits)

lemma data_map: "assert_map (IMap kvs) = (Some kvs, True)"
  by (simp add: assert_map_def)

lemma payload_cases:
  "assert_map (index (Some kvs) k) =
   (case map_of kvs k of Some (IMap pod) \<Rightarrow> (Some pod, True) | _ \<Rightarrow> (None, False))"
  by (simp add: assert_map_def index_def split: option.splits iface.splits)

lemma index_ok_dom: "index_ok (Some kvs) k = (k \<in> dom (map_of kvs))"
  by (auto simp: index_ok_def split: option.splits)

section \<open>The paths through each operation\<close>

lemma GetPods_status:
  "Query' GetPods_Input = Inr res \<Longrightarrow> StatusCode res \<noteq> 200 \<Longrightarrow>
   GetPods Query' Unmarshal = Return None (Some (ErrStatusCode (StatusCode res)))"
  by (simp add: GetPods_def)

lemma GetPods_graphql:
  "Query' GetPods_Input = Inr res \<Longrightarrow> StatusCode res = 200 \<Longrightarrow> Body res = Inr raw \<Longrightarrow>
   Unmarshal raw = Inr out \<Longrightarrow> Errors out = Some (Some e # es) \<Longrightarrow>
   GetPods Query' Unmarshal = Return None (Some (ErrGraphQL (Message e)))"
  by (simp add: GetPods_def len_def elem_at_def)

lemma GetPods_pods:
  "Query' GetPods_Input = Inr res \<Longrightarrow> StatusCode res = 200 \<Longrightarrow> Body res = Inr raw \<Longrightarrow>
   Unmarshal raw = Inr out \<Longrightarrow> len (Errors out) = 0 \<Longrightarrow> Data out = Some d \<Longrightarrow>
   Myself d = Some m \<Longrightarrow> Pods m = Some pods \<Longrightarrow>
   GetPods Query' Unmarshal = Return (Some pods) None"
  by (simp add: GetPods_def)

lemma CreatePod_unreadable:
  "CreatePod_Name p = Some p' \<Longrightarrow> Query' (CreatePod_Input p') = Inr res \<Longrightarrow>
   Body res = Inl err \<Longrightarrow>
   CreatePod Query' Unmarshal (Some p) = (Some p', Return None (Some (ErrReadAll err)))"
  by (simp add: CreatePod_def)

lemma CreatePod_status:
  "CreatePod_Name p = Some p' \<Longrightarrow> Query' (CreatePod_Input p') = Inr res \<Longrightarrow>
   Body res = Inr raw \<Longrightarrow> StatusCode res \<noteq> 200 \<Longrightarrow>
   CreatePod Query' Unmarshal (Some p) =
     (Some p', Return None (Some (ErrStatusCodeBody (StatusCode res) raw)))"
  by (simp add: CreatePod_def)

lemma CreatePod_graphql:
  "CreatePod_Name p = Some p' \<Longrightarrow> Query' (CreatePod_Input p') = Inr res \<Longrightarrow>
   StatusCode res = 200 \<Longrightarrow> Body res = Inr raw \<Longrightarrow> Unmarshal raw = Inr data \<Longrightarrow>
   index data ''errors'' = ISlice (IMap kvs # rest) \<Longrightarrow>
   map_of kvs ''message'' = Some (IString msg) \<Longrightarrow>
   CreatePod Query' Unmarshal (Some p) = (Some p', Return None (Some (ErrGraphQL msg)))"
  by (simp add: CreatePod_def errors_guard_true first_error_message)

lemma CreatePod_panic:
  "CreatePod_Name p = Some p' \<Longrightarrow> Query' (CreatePod_Input p') = Inr res \<Longrightarrow>
   StatusCode res = 200 \<Longrightarrow> Body res = Inr raw \<Longrightarrow> Unmarshal raw = Inr data \<Longrightarrow>
   index data ''errors'' = ISlice (e # rest) \<Longrightarrow>
   \<not> (\<exists>kvs s. e = IMap kvs \<and> map_of kvs ''message'' = Some (IString s)) \<Longrightarrow>
   CreatePod Query' Unmarshal (Some p) = (Some p', Panic InterfaceConversion)"
  by (cases "assert_map e") (simp add: CreatePod_def errors_guard_true first_error_panics)

lemma CreatePod_payload:
  "CreatePod_Name p = Some p' \<Longrightarrow> Query' (CreatePod_Input p') = Inr res \<Longrightarrow>
   StatusCode res = 200 \<Longrightarrow> Body res = Inr raw \<Longrightarrow> Unmarshal raw = Inr data \<Longrightarrow>
   \<forall>e es. index data ''errors'' \<noteq> ISlice (e # es) \<Longrightarrow> index data ''data'' = IMap kvs \<Longrightarrow>
   CreatePod Query' Unmarshal (Some p) =
     (Some p',
      case map_of kvs ''podFindAndDeployOnDemand'' of
        Some (IMap pod) \<Rightarrow> Return (Some pod) None
      | _ \<Rightarrow> Return None (Some (ErrIsNil ''pod'' raw)))"
  using errors_guard_false [of "index data ''errors''"]
  by (cases "assert_slice (index data ''errors'')")
     (simp add: CreatePod_def data_map payload_cases split: option.splits iface.splits
        cong: conj_cong)

lemma StopPod_status:
  "Query' (StopPod_Input a) = Inr res \<Longrightarrow> StatusCode res \<noteq> 200 \<Longrightarrow>
   StopPod Query' Unmarshal a = Return None (Some (ErrStatusCode (StatusCode res)))"
  by (simp add: StopPod_def)

lemma StopPod_graphql:
  "Query' (StopPod_Input a) = Inr res \<Longrightarrow> StatusCode res = 200 \<Longrightarrow> Body res = Inr raw \<Longrightarrow>
   Unmarshal raw = Inr data \<Longrightarrow> index data ''errors'' = ISlice (IMap kvs # rest) \<Longrightarrow>
   map_of kvs ''message'' = Some (IString msg) \<Longrightarrow>
   StopPod Query' Unmarshal a = Return None (Some (ErrGraphQL msg))"
  by (simp add: StopPod_def errors_guard_true first_error_message)

lemma StopPod_panic:
  "Query' (StopPod_Input a) = Inr res \<Longrightarrow> StatusCode res = 200 \<Longrightarrow> Body res = Inr raw \<Longrightarrow>
   Unmarshal raw = Inr data \<Longrightarrow> index data ''errors'' = ISlice (e # rest) \<Longrightarrow>
   \<not> (\<exists>kvs s. e = IMap kvs \<and> map_of kvs ''message'' = Some (IString s)) \<Longrightarrow>
   StopPod Query' Unmarshal a = Panic InterfaceConversion"
  by (cases "assert_map e") (simp add: StopPod_def errors_guard_true first_error_panics)

lemma StopPod_payload:
  "Query' (StopPod_Input a) = Inr res \<Longrightarrow> StatusCode res = 200 \<Longrightarrow> Body res = Inr raw \<Longrightarrow>
   Unmarshal raw = Inr data \<Longrightarrow> \<forall>e es. index data ''errors'' \<noteq> ISlice (e # es) \<Longrightarrow>
   index data ''data'' = IMap kvs \<Longrightarrow>
   StopPod Query' Unmarshal a =
     (case map_of kvs ''podStop'' of
        Some (IMap pod) \<Rightarrow> Return (Some pod) None
      | _ \<Rightarrow> Return None (Some (ErrIsNil ''podStop'' raw)))"
  using errors_guard_false [of "index data ''errors''"]
  by (cases "assert_slice (index data ''errors'')")
     (simp add: StopPod_def data_map payload_cases split: option.splits iface.splits
        cong: conj_cong)

lemma RemovePod_status:
  "Query' (RemovePod_Input a) = Inr res \<Longrightarrow> StatusCode res \<noteq> 200 \<Longrightarrow>
   RemovePod Query' Unmarshal a = Return False (Some (ErrStatusCode (StatusCode res)))"
  by (simp add: RemovePod_def)

lemma RemovePod_graphql:
  "Query' (RemovePod_Input a) = Inr res \<Longrightarrow> StatusCode res = 200 \<Longrightarrow> Body res = Inr raw \<Longrightarrow>
   Unmarshal raw = Inr data \<Longrightarrow> index data ''errors'' = ISlice (IMap kvs # rest) \<Longrightarrow>
   map_of kvs ''message'' = Some (IString msg) \<Longrightarrow>
   RemovePod Query' Unmarshal a = Return True (Some (ErrGraphQL msg))"
  by (simp add: RemovePod_def errors_guard_true first_error_message)

lemma RemovePod_panic:
  "Query' (RemovePod_Input a) = Inr res \<Longrightarrow> StatusCode res = 200 \<Longrightarrow> Body res = Inr raw \<Longrightarrow>
   Unmarshal raw = Inr data \<Longrightarrow> index data ''errors'' = ISlice (e # rest) \<Longrightarrow>
   \<not> (\<exists>kvs s. e = IMap kvs \<and> map_of kvs ''message'' = Some (IString s)) \<Longrightarrow>
   RemovePod Query' Unmarshal a = Panic InterfaceConversion"
  by (cases "assert_map e") (simp add: RemovePod_def errors_guard_true first_error_panics)

lemma RemovePod_payload:
  "Query' (RemovePod_Input a) = Inr res \<Longrightarrow> StatusCode res = 200 \<Longrightarrow> Body res = Inr raw \<Longrightarrow>
   Unmarshal raw = Inr data \<Longrightarrow> \<forall>e es. index data ''errors'' \<noteq> ISlice (e # es) \<Longrightarrow>
   index data ''data'' = IMap kvs \<Longrightarrow>
   RemovePod Query' Unmarshal a = Return (''podTerminate'' \<in> dom (map_of kvs)) None"
  using errors_guard_false [of "index data ''errors''"]
  by (cases "assert_slice (index data ''errors'')")
     (simp add: RemovePod_def data_map index_ok_dom cong: conj_cong)

lemma StartOnDemandPod_status:
  "Query' (StartOnDemandPod_Input a) = Inr res \<Longrightarrow> StatusCode res \<noteq> 200 \<Longrightarrow>
   StartOnDemandPod Query' Unmarshal a = Return None (Some (ErrPodBidResumeStatusCode (StatusCode res)))"
  by (simp add: StartOnDemandPod_def)

lemma StartOnDemandPod_graphql:
  "Query' (StartOnDemandPod_Input a) = Inr res \<Longrightarrow> StatusCode res = 200 \<Longrightarrow> Body res = Inr raw \<Longrightarrow>
   Unmarshal raw = Inr data \<Longrightarrow> index data ''errors'' = ISlice (IMap kvs # rest) \<Longrightarrow>
   map_of kvs ''message'' = Some (IString msg) \<Longrightarrow>
   StartOnDemandPod Query' Unmarshal a = Return None (Some (ErrGraphQL msg))"
  by (simp add: StartOnDemandPod_def errors_guard_true first_error_message)

lemma StartOnDemandPod_panic:
  "Query' (StartOnDemandPod_Input a) = Inr res \<Longrightarrow> StatusCode res = 200 \<Longrightarrow> Body res = Inr raw \<Longrightarrow>
   Unmarshal raw = Inr data \<Longrightarrow> index data ''errors'' = ISlice (e # rest) \<Longrightarrow>
   \<not> (\<exists>kvs s. e = IMap kvs \<and> map_of kvs ''message'' = Some (IString s)) \<Longrightarrow>
   StartOnDemandPod Query' Unmarshal a = Panic InterfaceConversion"
  by (cases "assert_map e") (simp add: StartOnDemandPod_def errors_guard_true first_error_panics)

lemma StartOnDemandPod_payload:
  "Query' (StartOnDemandPod_Input a) = Inr res \<Longrightarrow> StatusCode res = 200 \<Longrightarrow> Body res = Inr raw \<Longrightarrow>
   Unmarshal raw = Inr data \<Longrightarrow> \<forall>e es. index data ''errors'' \<noteq> ISlice (e # es) \<Longrightarrow>
   index data ''data'' = IMap kvs \<Longrightarrow>
   StartOnDemandPod Query' Unmarshal a =
     (case map_of kvs ''podResume'' of
        Some (IMap pod) \<Rightarrow> Return (Some pod) None
      | _ \<Rightarrow> Return None (Some (ErrIsNil ''pod'' raw)))"
  using errors_guard_false [of "index data ''errors''"]
  by (cases "assert_slice (index data ''errors'')")
     (simp add: StartOnDemandPod_def data_map payload_cases split: option.splits iface.splits
        cong: conj_cong)

lemma StartSpotPod_status:
  "Query' (StartSpotPod_Input a bid) = Inr res \<Longrightarrow> StatusCode res \<noteq> 200 \<Longrightarrow>
   StartSpotPod Query' Unmarshal a bid = Return None (Some (ErrPodBidResumeStatusCode (StatusCode res)))"
  by (simp add: StartSpotPod_def)

lemma StartSpotPod_graphql:
  "Query' (StartSpotPod_Input a bid) = Inr res \<Longrightarrow> StatusCode res = 200 \<Longrightarrow> Body res = Inr raw \<Longrightarrow>
   Unmarshal raw = Inr data \<Longrightarrow> index data ''errors'' = ISlice (IMap kvs # rest) \<Longrightarrow>
   map_of kvs ''message'' = Some (IString msg) \<Longrightarrow>
   StartSpotPod Query' Unmarshal a bid = Return None (Some (ErrGraphQL msg))"
  by (simp add: StartSpotPod_def errors_guard_true first_error_message)

lemma StartSpotPod_panic:
  "Query' (StartSpotPod_Input a bid) = Inr res \<Longrightarrow> StatusCode res = 200 \<Longrightarrow> Body res = Inr raw \<Longrightarrow>
   Unmarshal raw = Inr data \<Longrightarrow> index data ''errors'' = ISlice (e # rest) \<Longrightarrow>
   \<not> (\<exists>kvs s. e = IMap kvs \<and> map_of kvs ''message'' = Some (IString s)) \<Longrightarrow>
   StartSpotPod Query' Unmarshal a bid = Panic InterfaceConversion"
  by (cases "assert_map e") (simp add: StartSpotPod_def errors_guard_true first_error_panics)

lemma StartSpotPod_payload:
  "Query' (StartSpotPod_Input a bid) = Inr res \<Longrightarrow> StatusCode res = 200 \<Longrightarrow> Body res = Inr raw \<Longrightarrow>
   Unmarshal raw = Inr data \<Longrightarrow> \<forall>e es. index data ''errors'' \<noteq> ISlice (e # es) \<Longrightarrow>
   index data ''data'' = IMap kvs \<Longrightarrow>
   StartSpotPod Query' Unmarshal a bid =
     (case map_of kvs ''podBidResume'' of
        Some (IMap pod) \<Rightarrow> Return (Some pod) None
      | _ \<Rightarrow> Return None (Some (ErrIsNil ''podBidResume'' raw)))"
  using errors_guard_false [of "index data ''errors''"]
  by (cases "assert_slice (index data ''errors'')")
     (simp add: StartSpotPod_def data_map payload_cases split: option.splits iface.splits
        cong: conj_cong)

section \<open>Facts about the decoder\<close>



















section \<open>The status check and the GraphQL errors\<close>

text \<open>
  Claim C1. For each of the six operations: when the transport call succeeds, the status
  code is not 200 and the body can be read, the operation returns the status-code error,
  which carries the code. The decoders are arbitrary, so this holds whatever the body
  holds, in particular for an envelope with a non-empty errors list and null data: the
  result is never the error made from the errors list (\<open>ErrGraphQL\<close>) nor the
  missing-data error (\<open>ErrIsNil\<close>).
\<close>

theorem status_error_precedes_graphql_classification:
  assumes "StatusCode res \<noteq> 200" and "Body res = Inr raw"
  shows
    "(Query' GetPods_Input = Inr res \<longrightarrow>
        GetPods Query' UnmarshalPods = Return None (Some (ErrStatusCode (StatusCode res)))) \<and>
     (CreatePod_Name p = Some p' \<and> Query' (CreatePod_Input p') = Inr res \<longrightarrow>
        CreatePod Query' Unmarshal (Some p) =
          (Some p', Return None (Some (ErrStatusCodeBody (StatusCode res) raw)))) \<and>
     (Query' (StopPod_Input a) = Inr res \<longrightarrow>
        StopPod Query' Unmarshal a = Return None (Some (ErrStatusCode (StatusCode res)))) \<and>
     (Query' (RemovePod_Input a) = Inr res \<longrightarrow>
        RemovePod Query' Unmarshal a = Return False (Some (ErrStatusCode (StatusCode res)))) \<and>
     (Query' (StartOnDemandPod_Input a) = Inr res \<longrightarrow>
        StartOnDemandPod Query' Unmarshal a =
          Return None (Some (ErrPodBidResumeStatusCode (StatusCode res)))) \<and>
     (Query' (StartSpotPod_Input a bid) = Inr res \<longrightarrow>
        StartSpotPod Query' Unmarshal a bid =
          Return None (Some (ErrPodBidResumeStatusCode (StatusCode res))))"
  using assms
  by (simp add: GetPods_status CreatePod_status StopPod_status RemovePod_status
      StartOnDemandPod_status StartSpotPod_status)

theorem status_error_precedes_graphql_classification_witness:
  "GetPods (constant_transport (Inr \<lparr>StatusCode = 500, Body = Inr body_errors\<rparr>))
     sample_pod_decoder =
     Return None (Some (ErrStatusCode 500)) \<and>
   CreatePod (constant_transport (Inr \<lparr>StatusCode = 500, Body = Inr body_errors\<rparr>))
     sample_decoder (Some (CreatePodInput_zero\<lparr>ImageName := ''foo/bar:latest''\<rparr>)) =
     (Some (CreatePodInput_zero\<lparr>ImageName := ''foo/bar:latest'', Name := ''foo/bar''\<rparr>),
      Return None (Some (ErrStatusCodeBody 500 body_errors))) \<and>
   StopPod (constant_transport (Inr \<lparr>StatusCode = 500, Body = Inr body_errors\<rparr>))
     sample_decoder ''pod1'' =
     Return None (Some (ErrStatusCode 500)) \<and>
   RemovePod (constant_transport (Inr \<lparr>StatusCode = 500, Body = Inr body_errors\<rparr>))
     sample_decoder ''pod1'' =
     Return False (Some (ErrStatusCode 500)) \<and>
   StartOnDemandPod (constant_transport (Inr \<lparr>StatusCode = 500, Body = Inr body_errors\<rparr>))
     sample_decoder ''pod1'' =
     Return None (Some (ErrPodBidResumeStatusCode 500)) \<and>
   StartSpotPod (constant_transport (Inr \<lparr>StatusCode = 500, Body = Inr body_errors\<rparr>))
     sample_decoder ''pod1'' (1 / 2) =
     Return None (Some (ErrPodBidResumeStatusCode 500)) \<and>
   sample_decoder body_errors =
     Inr (Some [(''errors'', ISlice [IMap [(''message'', IString ''A'')],
                                     IMap [(''message'', IString ''B'')]]),
                (''data'', INil)])"
proof -
  let ?res = "\<lparr>StatusCode = 500, Body = Inr body_errors\<rparr>"
  have status: "StatusCode ?res \<noteq> 200" and body: "Body ?res = Inr body_errors"
    by simp_all
  have name: "CreatePod_Name (CreatePodInput_zero\<lparr>ImageName := ''foo/bar:latest''\<rparr>) =
      Some (CreatePodInput_zero\<lparr>ImageName := ''foo/bar:latest'', Name := ''foo/bar''\<rparr>)"
    by (simp add: CreatePod_Name_eq CreatePodInput_zero_def)
  have decoded: "sample_decoder body_errors =
     Inr (Some [(''errors'', ISlice [IMap [(''message'', IString ''A'')],
                                     IMap [(''message'', IString ''B'')]]),
                (''data'', INil)])"
    by (simp add: sample_decoder_def table_decoder_def)
  show ?thesis
    using status_error_precedes_graphql_classification
      [OF status body, of "constant_transport (Inr ?res)" sample_pod_decoder
        "CreatePodInput_zero\<lparr>ImageName := ''foo/bar:latest''\<rparr>"
        "CreatePodInput_zero\<lparr>ImageName := ''foo/bar:latest'', Name := ''foo/bar''\<rparr>"
        sample_decoder "''pod1''" "1 / 2"]
      name decoded
    by (simp add: constant_transport_def)
qed

text \<open>
  Claim C2. For each of the six operations: on a response with status 200 whose envelope
  has a non-empty errors list, the first entry carrying the message string \<open>msg\<close>, the
  operation fails with the GraphQL error whose message is exactly \<open>msg\<close>. The entries
  after the first play no part, and neither does \<open>data\<close> (null or not), so the result is
  never the missing-data error. For \<open>GetPods\<close> the envelope is the decoded \<open>PodOut\<close>, for
  the mutations the decoded map.
\<close>

theorem first_graphql_error_is_reported:
  assumes "StatusCode res = 200" and "Body res = Inr raw"
    and "UnmarshalPods raw = Inr out" and "Errors out = Some (Some e # es)"
    and "Message e = msg"
    and "Unmarshal raw = Inr data" and "index data ''errors'' = ISlice (IMap kvs # rest)"
    and "map_of kvs ''message'' = Some (IString msg)"
  shows
    "(Query' GetPods_Input = Inr res \<longrightarrow>
        GetPods Query' UnmarshalPods = Return None (Some (ErrGraphQL msg))) \<and>
     (CreatePod_Name p = Some p' \<and> Query' (CreatePod_Input p') = Inr res \<longrightarrow>
        CreatePod Query' Unmarshal (Some p) = (Some p', Return None (Some (ErrGraphQL msg)))) \<and>
     (Query' (StopPod_Input a) = Inr res \<longrightarrow>
        StopPod Query' Unmarshal a = Return None (Some (ErrGraphQL msg))) \<and>
     (Query' (RemovePod_Input a) = Inr res \<longrightarrow>
        RemovePod Query' Unmarshal a = Return True (Some (ErrGraphQL msg))) \<and>
     (Query' (StartOnDemandPod_Input a) = Inr res \<longrightarrow>
        StartOnDemandPod Query' Unmarshal a = Return None (Some (ErrGraphQL msg))) \<and>
     (Query' (StartSpotPod_Input a bid) = Inr res \<longrightarrow>
        StartSpotPod Query' Unmarshal a bid = Return None (Some (ErrGraphQL msg))) \<and>
     Error (ErrGraphQL msg) = msg"
proof -
  have "Query' GetPods_Input = Inr res \<Longrightarrow>
      GetPods Query' UnmarshalPods = Return None (Some (ErrGraphQL msg))"
    using GetPods_graphql [where Unmarshal = UnmarshalPods and raw = raw, OF _ assms(1-4)] assms(5) by simp
  moreover have "CreatePod_Name p = Some p' \<Longrightarrow> Query' (CreatePod_Input p') = Inr res \<Longrightarrow>
      CreatePod Query' Unmarshal (Some p) = (Some p', Return None (Some (ErrGraphQL msg)))"
    using CreatePod_graphql [where Unmarshal = Unmarshal and raw = raw, OF _ _ assms(1,2,6-8)] by simp
  moreover have "Query' (StopPod_Input a) = Inr res \<Longrightarrow>
      StopPod Query' Unmarshal a = Return None (Some (ErrGraphQL msg))"
    using StopPod_graphql [where Unmarshal = Unmarshal and raw = raw, OF _ assms(1,2,6-8)] by simp
  moreover have "Query' (RemovePod_Input a) = Inr res \<Longrightarrow>
      RemovePod Query' Unmarshal a = Return True (Some (ErrGraphQL msg))"
    using RemovePod_graphql [where Unmarshal = Unmarshal and raw = raw, OF _ assms(1,2,6-8)] by simp
  moreover have "Query' (StartOnDemandPod_Input a) = Inr res \<Longrightarrow>
      StartOnDemandPod Query' Unmarshal a = Return None (Some (ErrGraphQL msg))"
    using StartOnDemandPod_graphql [where Unmarshal = Unmarshal and raw = raw, OF _ assms(1,2,6-8)] by simp
  moreover have "Query' (StartSpotPod_Input a bid) = Inr res \<Longrightarrow>
      StartSpotPod Query' Unmarshal a bid = Return None (Some (ErrGraphQL msg))"
    using StartSpotPod_graphql [where Unmarshal = Unmarshal and raw = raw, OF _ assms(1,2,6-8)] by simp
  ultimately show ?thesis by simp
qed

theorem first_graphql_error_is_reported_witness:
  "GetPods (constant_transport (Inr \<lparr>StatusCode = 200, Body = Inr body_errors\<rparr>))
     sample_pod_decoder =
     Return None (Some (ErrGraphQL ''A'')) \<and>
   CreatePod (constant_transport (Inr \<lparr>StatusCode = 200, Body = Inr body_errors\<rparr>))
     sample_decoder (Some (CreatePodInput_zero\<lparr>Name := ''worker''\<rparr>)) =
     (Some (CreatePodInput_zero\<lparr>Name := ''worker''\<rparr>),
      Return None (Some (ErrGraphQL ''A''))) \<and>
   StopPod (constant_transport (Inr \<lparr>StatusCode = 200, Body = Inr body_errors\<rparr>))
     sample_decoder ''pod1'' =
     Return None (Some (ErrGraphQL ''A'')) \<and>
   RemovePod (constant_transport (Inr \<lparr>StatusCode = 200, Body = Inr body_errors\<rparr>))
     sample_decoder ''pod1'' =
     Return True (Some (ErrGraphQL ''A'')) \<and>
   StartOnDemandPod (constant_transport (Inr \<lparr>StatusCode = 200, Body = Inr body_errors\<rparr>))
     sample_decoder ''pod1'' =
     Return None (Some (ErrGraphQL ''A'')) \<and>
   StartSpotPod (constant_transport (Inr \<lparr>StatusCode = 200, Body = Inr body_errors\<rparr>))
     sample_decoder ''pod1'' (1 / 2) =
     Return None (Some (ErrGraphQL ''A'')) \<and>
   Error (ErrGraphQL ''A'') = ''A''"
proof -
  let ?res = "\<lparr>StatusCode = 200, Body = Inr body_errors\<rparr>"
  let ?kvs = "[(''message'', IString ''A'')]"
  let ?data = "Some [(''errors'', ISlice [IMap ?kvs, IMap [(''message'', IString ''B'')]]),
                     (''data'', INil)]"
  let ?out = "\<lparr>Data = None, Errors = Some [Some \<lparr>Message = ''A''\<rparr>, Some \<lparr>Message = ''B''\<rparr>]\<rparr>"
  have h1: "StatusCode ?res = 200" and h2: "Body ?res = Inr body_errors"
    by simp_all
  have h3: "sample_pod_decoder body_errors = Inr ?out"
    by (simp add: sample_pod_decoder_def)
  have h4: "Errors ?out = Some (Some \<lparr>Message = ''A''\<rparr> # [Some \<lparr>Message = ''B''\<rparr>])"
    and h5: "Message \<lparr>Message = ''A''\<rparr> = ''A''"
    by simp_all
  have h6: "sample_decoder body_errors = Inr ?data"
    by (simp add: sample_decoder_def table_decoder_def)
  have h7: "index ?data ''errors'' = ISlice (IMap ?kvs # [IMap [(''message'', IString ''B'')]])"
    and h8: "map_of ?kvs ''message'' = Some (IString ''A'')"
    by (simp_all add: index_def)
  have name: "CreatePod_Name (CreatePodInput_zero\<lparr>Name := ''worker''\<rparr>) =
      Some (CreatePodInput_zero\<lparr>Name := ''worker''\<rparr>)"
    by (simp add: CreatePod_Name_eq)
  show ?thesis
    using first_graphql_error_is_reported
        [where UnmarshalPods = sample_pod_decoder and Unmarshal = sample_decoder
           and raw = body_errors and Query' = "constant_transport (Inr ?res)"
           and p = "CreatePodInput_zero\<lparr>Name := ''worker''\<rparr>"
           and p' = "CreatePodInput_zero\<lparr>Name := ''worker''\<rparr>"
           and a = "''pod1''" and bid = "1 / 2",
         OF h1 h2 h3 h4 h5 h6 h7 h8]
      name
    by (simp add: constant_transport_def)
qed

section \<open>The status check and the read of the body\<close>

text \<open>
  Claim C3 says that all six operations look at the status code before they read the
  body. \<open>CreatePod\<close> does not: it calls \<open>io.ReadAll\<close> first, so that its status-code error
  can quote the body. Here the transport succeeds with status 500 and a body that cannot
  be read, and \<open>CreatePod\<close> returns the read failure, not a status-code error.
\<close>

theorem CreatePod_reads_body_before_status_counterexample:
  "CreatePod (constant_transport (Inr \<lparr>StatusCode = 500, Body = Inl ''unexpected EOF''\<rparr>))
     sample_decoder (Some (CreatePodInput_zero\<lparr>Name := ''worker''\<rparr>)) =
     (Some (CreatePodInput_zero\<lparr>Name := ''worker''\<rparr>),
      Return None (Some (ErrReadAll ''unexpected EOF'')))"
  by (simp add: CreatePod_def CreatePod_Name_eq constant_transport_def)

text \<open>
  Claim C3 as amended. When the transport call succeeds and the status code is not 200,
  \<open>GetPods\<close>, \<open>StopPod\<close>, \<open>RemovePod\<close>, \<open>StartOnDemandPod\<close> and \<open>StartSpotPod\<close> return the
  status-code error without reading the body, so also when the body could not be read.
  \<open>CreatePod\<close> reads the body first: it returns the read failure when the body cannot be
  read, and the status-code error only when it can.
\<close>

theorem status_check_and_body_read_order:
  assumes "StatusCode res \<noteq> 200"
  shows
    "(Query' GetPods_Input = Inr res \<longrightarrow>
        GetPods Query' UnmarshalPods = Return None (Some (ErrStatusCode (StatusCode res)))) \<and>
     (Query' (StopPod_Input a) = Inr res \<longrightarrow>
        StopPod Query' Unmarshal a = Return None (Some (ErrStatusCode (StatusCode res)))) \<and>
     (Query' (RemovePod_Input a) = Inr res \<longrightarrow>
        RemovePod Query' Unmarshal a = Return False (Some (ErrStatusCode (StatusCode res)))) \<and>
     (Query' (StartOnDemandPod_Input a) = Inr res \<longrightarrow>
        StartOnDemandPod Query' Unmarshal a =
          Return None (Some (ErrPodBidResumeStatusCode (StatusCode res)))) \<and>
     (Query' (StartSpotPod_Input a bid) = Inr res \<longrightarrow>
        StartSpotPod Query' Unmarshal a bid =
          Return None (Some (ErrPodBidResumeStatusCode (StatusCode res)))) \<and>
     (CreatePod_Name p = Some p' \<and> Query' (CreatePod_Input p') = Inr res \<longrightarrow>
        CreatePod Query' Unmarshal (Some p) =
          (Some p',
           case Body res of
             Inl err \<Rightarrow> Return None (Some (ErrReadAll err))
           | Inr raw \<Rightarrow> Return None (Some (ErrStatusCodeBody (StatusCode res) raw))))"
proof -
  have "CreatePod_Name p = Some p' \<Longrightarrow> Query' (CreatePod_Input p') = Inr res \<Longrightarrow>
      CreatePod Query' Unmarshal (Some p) =
        (Some p',
         case Body res of
           Inl err \<Rightarrow> Return None (Some (ErrReadAll err))
         | Inr raw \<Rightarrow> Return None (Some (ErrStatusCodeBody (StatusCode res) raw)))"
    using assms by (cases "Body res") (simp_all add: CreatePod_unreadable CreatePod_status)
  then show ?thesis
    using assms
    by (simp add: GetPods_status StopPod_status RemovePod_status StartOnDemandPod_status
        StartSpotPod_status)
qed

theorem status_check_and_body_read_order_witness:
  "GetPods (constant_transport (Inr \<lparr>StatusCode = 502, Body = Inl ''connection reset''\<rparr>))
     sample_pod_decoder =
     Return None (Some (ErrStatusCode 502)) \<and>
   StopPod (constant_transport (Inr \<lparr>StatusCode = 502, Body = Inl ''connection reset''\<rparr>))
     sample_decoder ''pod1'' =
     Return None (Some (ErrStatusCode 502)) \<and>
   RemovePod (constant_transport (Inr \<lparr>StatusCode = 502, Body = Inl ''connection reset''\<rparr>))
     sample_decoder ''pod1'' =
     Return False (Some (ErrStatusCode 502)) \<and>
   StartOnDemandPod
     (constant_transport (Inr \<lparr>StatusCode = 502, Body = Inl ''connection reset''\<rparr>))
     sample_decoder ''pod1'' =
     Return None (Some (ErrPodBidResumeStatusCode 502)) \<and>
   StartSpotPod (constant_transport (Inr \<lparr>StatusCode = 502, Body = Inl ''connection reset''\<rparr>))
     sample_decoder ''pod1'' (1 / 2) =
     Return None (Some (ErrPodBidResumeStatusCode 502)) \<and>
   CreatePod (constant_transport (Inr \<lparr>StatusCode = 502, Body = Inl ''connection reset''\<rparr>))
     sample_decoder (Some (CreatePodInput_zero\<lparr>Name := ''worker''\<rparr>)) =
     (Some (CreatePodInput_zero\<lparr>Name := ''worker''\<rparr>),
      Return None (Some (ErrReadAll ''connection reset'')))"
proof -
  let ?res = "\<lparr>StatusCode = 502, Body = Inl ''connection reset''\<rparr>"
  have status: "StatusCode ?res \<noteq> 200"
    by simp
  have name: "CreatePod_Name (CreatePodInput_zero\<lparr>Name := ''worker''\<rparr>) =
      Some (CreatePodInput_zero\<lparr>Name := ''worker''\<rparr>)"
    by (simp add: CreatePod_Name_eq)
  show ?thesis
    using status_check_and_body_read_order
        [where Query' = "constant_transport (Inr ?res)" and UnmarshalPods = sample_pod_decoder
           and Unmarshal = sample_decoder and a = "''pod1''" and bid = "1 / 2"
           and p = "CreatePodInput_zero\<lparr>Name := ''worker''\<rparr>"
           and p' = "CreatePodInput_zero\<lparr>Name := ''worker''\<rparr>",
         OF status]
      name
    by (simp add: constant_transport_def)
qed

section \<open>What the status-code error carries\<close>

text \<open>
  Claim C5 says that the status-code error of every mutation carries the status code and
  the raw body. Only \<open>CreatePod\<close> puts the body in: the other four make the error from the
  code alone, before the body is read. Here \<open>StopPod\<close> gets status 500 with the body
  \<open>{"data":{}}\<close>; its error is \<open>statuscode 500\<close>, with nothing of the body in it.
\<close>

theorem StopPod_status_error_without_body_counterexample:
  "StopPod (constant_transport (Inr \<lparr>StatusCode = 500, Body = Inr body_key_absent\<rparr>))
     sample_decoder ''pod1'' =
     Return None (Some (ErrStatusCode 500)) \<and>
   Error (ErrStatusCode 500) = ''statuscode 500''"
  by (simp add: StopPod_def constant_transport_def itoa_def digits.simps)

text \<open>
  Claim C5 as amended. When the transport call succeeds and the status code is not 200:
  the error of \<open>CreatePod\<close> carries the status code and, the body being readable, its raw
  text (\<open>statuscode <code>: <body>\<close>); the errors of \<open>StopPod\<close>, \<open>RemovePod\<close>,
  \<open>StartOnDemandPod\<close> and \<open>StartSpotPod\<close> carry the status code only
  (\<open>statuscode <code>\<close>, and \<open>PodBidResume: statuscode <code>\<close> for the two that start a
  pod).
\<close>

theorem mutation_status_error_contents:
  assumes "StatusCode res \<noteq> 200"
  shows
    "(CreatePod_Name p = Some p' \<and> Query' (CreatePod_Input p') = Inr res \<and>
      Body res = Inr raw \<longrightarrow>
        CreatePod Query' Unmarshal (Some p) =
          (Some p', Return None (Some (ErrStatusCodeBody (StatusCode res) raw))) \<and>
        Error (ErrStatusCodeBody (StatusCode res) raw) =
          ''statuscode '' @ itoa (StatusCode res) @ '': '' @ raw) \<and>
     (Query' (StopPod_Input a) = Inr res \<longrightarrow>
        StopPod Query' Unmarshal a = Return None (Some (ErrStatusCode (StatusCode res)))) \<and>
     (Query' (RemovePod_Input a) = Inr res \<longrightarrow>
        RemovePod Query' Unmarshal a = Return False (Some (ErrStatusCode (StatusCode res)))) \<and>
     Error (ErrStatusCode (StatusCode res)) = ''statuscode '' @ itoa (StatusCode res) \<and>
     (Query' (StartOnDemandPod_Input a) = Inr res \<longrightarrow>
        StartOnDemandPod Query' Unmarshal a =
          Return None (Some (ErrPodBidResumeStatusCode (StatusCode res)))) \<and>
     (Query' (StartSpotPod_Input a bid) = Inr res \<longrightarrow>
        StartSpotPod Query' Unmarshal a bid =
          Return None (Some (ErrPodBidResumeStatusCode (StatusCode res)))) \<and>
     Error (ErrPodBidResumeStatusCode (StatusCode res)) =
       ''PodBidResume: statuscode '' @ itoa (StatusCode res)"
  using assms
  by (simp add: CreatePod_status StopPod_status RemovePod_status StartOnDemandPod_status
      StartSpotPod_status)

theorem mutation_status_error_contents_witness:
  \<open>CreatePod (constant_transport (Inr \<lparr>StatusCode = 404, Body = Inr body_key_absent\<rparr>))
     sample_decoder (Some (CreatePodInput_zero\<lparr>Name := ''worker''\<rparr>)) =
     (Some (CreatePodInput_zero\<lparr>Name := ''worker''\<rparr>),
      Return None (Some (ErrStatusCodeBody 404 body_key_absent))) \<and>
   Error (ErrStatusCodeBody 404 body_key_absent) = ''statuscode 404: {"data":{}}'' \<and>
   StopPod (constant_transport (Inr \<lparr>StatusCode = 404, Body = Inr body_key_absent\<rparr>))
     sample_decoder ''pod1'' =
     Return None (Some (ErrStatusCode 404)) \<and>
   RemovePod (constant_transport (Inr \<lparr>StatusCode = 404, Body = Inr body_key_absent\<rparr>))
     sample_decoder ''pod1'' =
     Return False (Some (ErrStatusCode 404)) \<and>
   Error (ErrStatusCode 404) = ''statuscode 404'' \<and>
   StartOnDemandPod (constant_transport (Inr \<lparr>StatusCode = 404, Body = Inr body_key_absent\<rparr>))
     sample_decoder ''pod1'' =
     Return None (Some (ErrPodBidResumeStatusCode 404)) \<and>
   StartSpotPod (constant_transport (Inr \<lparr>StatusCode = 404, Body = Inr body_key_absent\<rparr>))
     sample_decoder ''pod1'' (1 / 2) =
     Return None (Some (ErrPodBidResumeStatusCode 404)) \<and>
   Error (ErrPodBidResumeStatusCode 404) = ''PodBidResume: statuscode 404''\<close>
proof -
  let ?res = "\<lparr>StatusCode = 404, Body = Inr body_key_absent\<rparr>"
  have status: "StatusCode ?res \<noteq> 200"
    by simp
  have name: "CreatePod_Name (CreatePodInput_zero\<lparr>Name := ''worker''\<rparr>) =
      Some (CreatePodInput_zero\<lparr>Name := ''worker''\<rparr>)"
    by (simp add: CreatePod_Name_eq)
  have shown: "itoa 404 = ''404''"
    by (simp add: itoa_def digits.simps)
  show ?thesis
    using mutation_status_error_contents
        [where Query' = "constant_transport (Inr ?res)" and Unmarshal = sample_decoder
           and a = "''pod1''" and bid = "1 / 2" and raw = body_key_absent
           and p = "CreatePodInput_zero\<lparr>Name := ''worker''\<rparr>"
           and p' = "CreatePodInput_zero\<lparr>Name := ''worker''\<rparr>",
         OF status]
      name shown
    by (simp add: constant_transport_def body_key_absent_def)
qed

section \<open>The payload of a status-200 response\<close>

text \<open>
  Claim C4 says that \<open>RemovePod\<close>, on a status-200 response with the body \<open>{"data":{}}\<close>
  (the key \<open>podTerminate\<close> absent), fails with a missing-data error. It does not fail: the
  last statement only sets the result \<open>ok\<close> to the presence of the key, and the error
  stays nil. The call returns false and no error.
\<close>

theorem RemovePod_key_absent_counterexample:
  "RemovePod (constant_transport (Inr \<lparr>StatusCode = 200, Body = Inr body_key_absent\<rparr>))
     sample_decoder ''pod1'' =
     Return False None \<and>
   sample_decoder body_key_absent = Inr (Some [(''data'', IMap [])])"
  by (simp add: RemovePod_def constant_transport_def sample_decoder_def table_decoder_def
      body_key_absent_def body_errors_def body_key_null_def index_def assert_slice_def
      assert_map_def index_ok_def)

text \<open>
  Claim C4 as amended. For \<open>RemovePod\<close>, on a status-200 response whose envelope has no
  errors and whose \<open>data\<close> is an object: the call returns no error, and its result \<open>ok\<close> is
  true exactly when the key \<open>podTerminate\<close> is present in \<open>data\<close>, whatever it is bound to.
  So \<open>{"data":{"podTerminate":null}}\<close> gives true and \<open>{"data":{}}\<close> gives false with a nil
  error: the caller tells the two apart by the boolean, not by an error.
\<close>

theorem RemovePod_reports_key_presence:
  assumes "Query' (RemovePod_Input a) = Inr res" and "StatusCode res = 200"
    and "Body res = Inr raw" and "Unmarshal raw = Inr data"
    and "\<forall>e es. index data ''errors'' \<noteq> ISlice (e # es)"
    and "index data ''data'' = IMap kvs"
  shows "RemovePod Query' Unmarshal a = Return (''podTerminate'' \<in> dom (map_of kvs)) None"
  using assms by (rule RemovePod_payload)

theorem RemovePod_reports_key_presence_witness:
  "RemovePod (constant_transport (Inr \<lparr>StatusCode = 200, Body = Inr body_key_null\<rparr>))
     sample_decoder ''pod1'' =
     Return True None"
proof -
  let ?res = "\<lparr>StatusCode = 200, Body = Inr body_key_null\<rparr>"
  let ?kvs = "[(''podTerminate'', INil)]"
  let ?data = "Some [(''data'', IMap ?kvs)]"
  have h1: "constant_transport (Inr ?res) (RemovePod_Input ''pod1'') = Inr ?res"
    by (simp add: constant_transport_def)
  have h2: "StatusCode ?res = 200" and h3: "Body ?res = Inr body_key_null"
    by simp_all
  have h4: "sample_decoder body_key_null = Inr ?data"
    by (simp add: sample_decoder_def table_decoder_def body_key_null_def body_errors_def)
  have h5: "\<forall>e es. index ?data ''errors'' \<noteq> ISlice (e # es)"
    and h6: "index ?data ''data'' = IMap ?kvs"
    by (simp_all add: index_def)
  show ?thesis
    using RemovePod_reports_key_presence
        [where Query' = "constant_transport (Inr ?res)" and a = "''pod1''"
           and Unmarshal = sample_decoder and raw = body_key_null,
         OF h1 h2 h3 h4 h5 h6]
    by simp
qed

text \<open>
  Claim C6 says that a payload key bound to a value of the wrong shape gives a
  shape-mismatch error that the caller can tell from the missing-data error of an absent
  key. The file has one test for both, \<open>!ok || pod == nil\<close>, and one error. Here \<open>StopPod\<close>
  gets \<open>{"data":{"podStop":5}}\<close> (the key bound to a number) and then \<open>{"data":{}}\<close> (the
  key absent): both calls fail with the same \<open>podStop is nil\<close> error, which differs only
  in the body it quotes.
\<close>

theorem StopPod_wrong_shape_counterexample:
  \<open>StopPod (constant_transport (Inr \<lparr>StatusCode = 200, Body = Inr body_key_scalar\<rparr>))
     sample_decoder ''pod1'' =
     Return None (Some (ErrIsNil ''podStop'' body_key_scalar)) \<and>
   StopPod (constant_transport (Inr \<lparr>StatusCode = 200, Body = Inr body_key_absent\<rparr>))
     sample_decoder ''pod1'' =
     Return None (Some (ErrIsNil ''podStop'' body_key_absent)) \<and>
   Error (ErrIsNil ''podStop'' body_key_scalar) = ''podStop is nil: {"data":{"podStop":5}}'' \<and>
   Error (ErrIsNil ''podStop'' body_key_absent) = ''podStop is nil: {"data":{}}'' \<and>
   sample_decoder body_key_scalar = Inr (Some [(''data'', IMap [(''podStop'', IFloat64 5)])]) \<and>
   sample_decoder body_key_absent = Inr (Some [(''data'', IMap [])])\<close>
  by (simp add: StopPod_def constant_transport_def sample_decoder_def table_decoder_def
      body_key_absent_def body_key_scalar_def body_errors_def body_key_null_def index_def
      assert_slice_def assert_map_def)

text \<open>
  Claim C6 as amended. On a status-200 response whose envelope has no errors and whose
  \<open>data\<close> is an object: \<open>CreatePod\<close>, \<open>StopPod\<close>, \<open>StartOnDemandPod\<close> and \<open>StartSpotPod\<close>
  fail with one and the same error, \<open><name> is nil: <body>\<close>, when the payload key is
  bound to anything but an object and when it is absent; there is no separate
  shape-mismatch error. \<open>RemovePod\<close> succeeds whenever its key is present, whatever the key
  is bound to. \<open>GetPods\<close> leaves the shape of its payload to \<open>json.Unmarshal\<close> and returns
  the error of that call.
\<close>

theorem wrong_shape_and_absent_key_give_one_error:
  assumes "StatusCode res = 200" and "Body res = Inr raw"
    and "Unmarshal raw = Inr data"
    and "\<forall>e es. index data ''errors'' \<noteq> ISlice (e # es)"
    and "index data ''data'' = IMap kvs"
  shows
    "(CreatePod_Name p = Some p' \<and> Query' (CreatePod_Input p') = Inr res \<and>
      (\<forall>pod. map_of kvs ''podFindAndDeployOnDemand'' \<noteq> Some (IMap pod)) \<longrightarrow>
        CreatePod Query' Unmarshal (Some p) =
          (Some p', Return None (Some (ErrIsNil ''pod'' raw)))) \<and>
     (Query' (StopPod_Input a) = Inr res \<and>
      (\<forall>pod. map_of kvs ''podStop'' \<noteq> Some (IMap pod)) \<longrightarrow>
        StopPod Query' Unmarshal a = Return None (Some (ErrIsNil ''podStop'' raw))) \<and>
     (Query' (StartOnDemandPod_Input a) = Inr res \<and>
      (\<forall>pod. map_of kvs ''podResume'' \<noteq> Some (IMap pod)) \<longrightarrow>
        StartOnDemandPod Query' Unmarshal a = Return None (Some (ErrIsNil ''pod'' raw))) \<and>
     (Query' (StartSpotPod_Input a bid) = Inr res \<and>
      (\<forall>pod. map_of kvs ''podBidResume'' \<noteq> Some (IMap pod)) \<longrightarrow>
        StartSpotPod Query' Unmarshal a bid =
          Return None (Some (ErrIsNil ''podBidResume'' raw))) \<and>
     (Query' (RemovePod_Input a) = Inr res \<and> map_of kvs ''podTerminate'' = Some v \<longrightarrow>
        RemovePod Query' Unmarshal a = Return True None) \<and>
     (Query' GetPods_Input = Inr res \<and> UnmarshalPods raw = Inl err \<longrightarrow>
        GetPods Query' UnmarshalPods = Return None (Some (ErrUnmarshal err)))"
proof -
  have not_object: "(case map_of kvs k of
        Some (IMap pod) \<Rightarrow> Return (Some pod) None
      | _ \<Rightarrow> Return None (Some e)) = Return None (Some e)"
    if "\<forall>pod. map_of kvs k \<noteq> Some (IMap pod)" for k and e :: error
    using that by (auto split: option.splits iface.splits)
  have "CreatePod Query' Unmarshal (Some p) =
      (Some p', Return None (Some (ErrIsNil ''pod'' raw)))"
    if "CreatePod_Name p = Some p'" and "Query' (CreatePod_Input p') = Inr res"
      and "\<forall>pod. map_of kvs ''podFindAndDeployOnDemand'' \<noteq> Some (IMap pod)"
    using CreatePod_payload [where Query' = Query' and Unmarshal = Unmarshal and raw = raw,
        OF that(1,2) assms] not_object [OF that(3)]
    by simp
  moreover have "StopPod Query' Unmarshal a = Return None (Some (ErrIsNil ''podStop'' raw))"
    if "Query' (StopPod_Input a) = Inr res"
      and "\<forall>pod. map_of kvs ''podStop'' \<noteq> Some (IMap pod)"
    using StopPod_payload [where Query' = Query' and Unmarshal = Unmarshal and raw = raw, OF that(1) assms]
      not_object [OF that(2)]
    by simp
  moreover have "StartOnDemandPod Query' Unmarshal a = Return None (Some (ErrIsNil ''pod'' raw))"
    if "Query' (StartOnDemandPod_Input a) = Inr res"
      and "\<forall>pod. map_of kvs ''podResume'' \<noteq> Some (IMap pod)"
    using StartOnDemandPod_payload [where Query' = Query' and Unmarshal = Unmarshal and raw = raw,
        OF that(1) assms] not_object [OF that(2)]
    by simp
  moreover have "StartSpotPod Query' Unmarshal a bid =
      Return None (Some (ErrIsNil ''podBidResume'' raw))"
    if "Query' (StartSpotPod_Input a bid) = Inr res"
      and "\<forall>pod. map_of kvs ''podBidResume'' \<noteq> Some (IMap pod)"
    using StartSpotPod_payload [where Query' = Query' and Unmarshal = Unmarshal and raw = raw,
        OF that(1) assms] not_object [OF that(2)]
    by simp
  moreover have "RemovePod Query' Unmarshal a = Return True None"
    if "Query' (RemovePod_Input a) = Inr res" and "map_of kvs ''podTerminate'' = Some v"
    using RemovePod_payload [where Query' = Query' and Unmarshal = Unmarshal and raw = raw, OF that(1) assms]
      that(2)
    by (simp add: dom_def)
  moreover have "GetPods Query' UnmarshalPods = Return None (Some (ErrUnmarshal err))"
    if "Query' GetPods_Input = Inr res" and "UnmarshalPods raw = Inl err"
    using that assms(1,2) by (simp add: GetPods_def)
  ultimately show ?thesis
    by blast
qed

theorem wrong_shape_and_absent_key_give_one_error_witness:
  "CreatePod (constant_transport (Inr \<lparr>StatusCode = 200, Body = Inr body_key_scalar\<rparr>))
     sample_decoder (Some (CreatePodInput_zero\<lparr>Name := ''worker''\<rparr>)) =
     (Some (CreatePodInput_zero\<lparr>Name := ''worker''\<rparr>),
      Return None (Some (ErrIsNil ''pod'' body_key_scalar))) \<and>
   StopPod (constant_transport (Inr \<lparr>StatusCode = 200, Body = Inr body_key_scalar\<rparr>))
     sample_decoder ''pod1'' =
     Return None (Some (ErrIsNil ''podStop'' body_key_scalar)) \<and>
   StartOnDemandPod (constant_transport (Inr \<lparr>StatusCode = 200, Body = Inr body_key_scalar\<rparr>))
     sample_decoder ''pod1'' =
     Return None (Some (ErrIsNil ''pod'' body_key_scalar)) \<and>
   StartSpotPod (constant_transport (Inr \<lparr>StatusCode = 200, Body = Inr body_key_scalar\<rparr>))
     sample_decoder ''pod1'' (1 / 2) =
     Return None (Some (ErrIsNil ''podBidResume'' body_key_scalar)) \<and>
   RemovePod (constant_transport (Inr \<lparr>StatusCode = 200, Body = Inr body_key_null\<rparr>))
     sample_decoder ''pod1'' =
     Return True None \<and>
   GetPods (constant_transport (Inr \<lparr>StatusCode = 200, Body = Inr body_pods_scalar\<rparr>))
     sample_pod_decoder =
     Return None (Some (ErrUnmarshal ''json: cannot unmarshal number''))"
proof -
  let ?scalar = "\<lparr>StatusCode = 200, Body = Inr body_key_scalar\<rparr>"
  let ?null = "\<lparr>StatusCode = 200, Body = Inr body_key_null\<rparr>"
  let ?pods = "\<lparr>StatusCode = 200, Body = Inr body_pods_scalar\<rparr>"
  have scalar: "StatusCode ?scalar = 200" "Body ?scalar = Inr body_key_scalar"
    "sample_decoder body_key_scalar = Inr (Some [(''data'', IMap [(''podStop'', IFloat64 5)])])"
    and null: "StatusCode ?null = 200" "Body ?null = Inr body_key_null"
    "sample_decoder body_key_null = Inr (Some [(''data'', IMap [(''podTerminate'', INil)])])"
    and pods: "StatusCode ?pods = 200" "Body ?pods = Inr body_pods_scalar"
    "sample_decoder body_pods_scalar =
       Inr (Some [(''data'', IMap [(''myself'', IMap [(''pods'', IFloat64 5)])])])"
    by (simp_all add: sample_decoder_def table_decoder_def body_key_scalar_def body_errors_def
        body_key_null_def body_key_absent_def body_error_null_def body_error_string_def
        body_error_number_def body_pods_scalar_def)
  have envelope: "\<forall>e es. index (Some [(''data'', IMap kvs)]) ''errors'' \<noteq> ISlice (e # es)"
    "index (Some [(''data'', IMap kvs)]) ''data'' = IMap kvs" for kvs
    by (simp_all add: index_def)
  have name: "CreatePod_Name (CreatePodInput_zero\<lparr>Name := ''worker''\<rparr>) =
      Some (CreatePodInput_zero\<lparr>Name := ''worker''\<rparr>)"
    by (simp add: CreatePod_Name_eq)
  have rejected: "sample_pod_decoder body_pods_scalar = Inl ''json: cannot unmarshal number''"
    by (simp add: sample_pod_decoder_def body_pods_scalar_def body_errors_def body_pods_def
        body_key_null_def body_key_absent_def body_key_scalar_def body_error_null_def)
  show ?thesis
    using wrong_shape_and_absent_key_give_one_error
        [where Query' = "constant_transport (Inr ?scalar)" and Unmarshal = sample_decoder
           and raw = body_key_scalar and a = "''pod1''" and bid = "1 / 2"
           and p = "CreatePodInput_zero\<lparr>Name := ''worker''\<rparr>"
           and p' = "CreatePodInput_zero\<lparr>Name := ''worker''\<rparr>",
         OF scalar envelope]
      wrong_shape_and_absent_key_give_one_error
        [where Query' = "constant_transport (Inr ?null)" and Unmarshal = sample_decoder
           and raw = body_key_null and a = "''pod1''" and v = INil,
         OF null envelope]
      wrong_shape_and_absent_key_give_one_error
        [where Query' = "constant_transport (Inr ?pods)" and Unmarshal = sample_decoder
           and UnmarshalPods = sample_pod_decoder and raw = body_pods_scalar
           and err = "''json: cannot unmarshal number''",
         OF pods envelope]
      name rejected
    by (simp add: constant_transport_def)
qed

section \<open>The panic on a malformed first error\<close>

text \<open>
  Claim C10. For each of the five mutations: on a status-200 response whose envelope has
  a non-empty errors list, if the first entry is not an object with a string under
  \<open>message\<close> (it is null, a string, a number, an object without \<open>message\<close>, an object whose
  \<open>message\<close> is not a string), the one-value type assertion \<open>firstErr["message"].(string)\<close>
  panics: the call does not return, so no error reaches the caller.
\<close>

theorem malformed_first_error_panics:
  assumes "StatusCode res = 200" and "Body res = Inr raw"
    and "Unmarshal raw = Inr data" and "index data ''errors'' = ISlice (e # rest)"
    and "\<not> (\<exists>kvs s. e = IMap kvs \<and> map_of kvs ''message'' = Some (IString s))"
  shows
    "(CreatePod_Name p = Some p' \<and> Query' (CreatePod_Input p') = Inr res \<longrightarrow>
        CreatePod Query' Unmarshal (Some p) = (Some p', Panic InterfaceConversion)) \<and>
     (Query' (StopPod_Input a) = Inr res \<longrightarrow>
        StopPod Query' Unmarshal a = Panic InterfaceConversion) \<and>
     (Query' (RemovePod_Input a) = Inr res \<longrightarrow>
        RemovePod Query' Unmarshal a = Panic InterfaceConversion) \<and>
     (Query' (StartOnDemandPod_Input a) = Inr res \<longrightarrow>
        StartOnDemandPod Query' Unmarshal a = Panic InterfaceConversion) \<and>
     (Query' (StartSpotPod_Input a bid) = Inr res \<longrightarrow>
        StartSpotPod Query' Unmarshal a bid = Panic InterfaceConversion)"
proof -
  have "CreatePod Query' Unmarshal (Some p) = (Some p', Panic InterfaceConversion)"
    if "CreatePod_Name p = Some p'" and "Query' (CreatePod_Input p') = Inr res"
    using CreatePod_panic [where Query' = Query' and Unmarshal = Unmarshal and raw = raw,
        OF that assms] .
  moreover have "StopPod Query' Unmarshal a = Panic InterfaceConversion"
    if "Query' (StopPod_Input a) = Inr res"
    using StopPod_panic [where Query' = Query' and Unmarshal = Unmarshal and raw = raw,
        OF that assms] .
  moreover have "RemovePod Query' Unmarshal a = Panic InterfaceConversion"
    if "Query' (RemovePod_Input a) = Inr res"
    using RemovePod_panic [where Query' = Query' and Unmarshal = Unmarshal and raw = raw,
        OF that assms] .
  moreover have "StartOnDemandPod Query' Unmarshal a = Panic InterfaceConversion"
    if "Query' (StartOnDemandPod_Input a) = Inr res"
    using StartOnDemandPod_panic [where Query' = Query' and Unmarshal = Unmarshal and raw = raw,
        OF that assms] .
  moreover have "StartSpotPod Query' Unmarshal a bid = Panic InterfaceConversion"
    if "Query' (StartSpotPod_Input a bid) = Inr res"
    using StartSpotPod_panic [where Query' = Query' and Unmarshal = Unmarshal and raw = raw,
        OF that assms] .
  ultimately show ?thesis
    by blast
qed

theorem malformed_first_error_panics_witness:
  "CreatePod (constant_transport (Inr \<lparr>StatusCode = 200, Body = Inr body_error_null\<rparr>))
     sample_decoder (Some (CreatePodInput_zero\<lparr>Name := ''worker''\<rparr>)) =
     (Some (CreatePodInput_zero\<lparr>Name := ''worker''\<rparr>), Panic InterfaceConversion) \<and>
   StopPod (constant_transport (Inr \<lparr>StatusCode = 200, Body = Inr body_error_null\<rparr>))
     sample_decoder ''pod1'' =
     Panic InterfaceConversion \<and>
   RemovePod (constant_transport (Inr \<lparr>StatusCode = 200, Body = Inr body_error_null\<rparr>))
     sample_decoder ''pod1'' =
     Panic InterfaceConversion \<and>
   StartOnDemandPod (constant_transport (Inr \<lparr>StatusCode = 200, Body = Inr body_error_null\<rparr>))
     sample_decoder ''pod1'' =
     Panic InterfaceConversion \<and>
   StartSpotPod (constant_transport (Inr \<lparr>StatusCode = 200, Body = Inr body_error_null\<rparr>))
     sample_decoder ''pod1'' (1 / 2) =
     Panic InterfaceConversion \<and>
   StopPod (constant_transport (Inr \<lparr>StatusCode = 200, Body = Inr body_error_string\<rparr>))
     sample_decoder ''pod1'' =
     Panic InterfaceConversion \<and>
   StopPod (constant_transport (Inr \<lparr>StatusCode = 200, Body = Inr body_error_number\<rparr>))
     sample_decoder ''pod1'' =
     Panic InterfaceConversion"
proof -
  have bodies: "sample_decoder body_error_null = Inr (Some [(''errors'', ISlice [INil])])"
    "sample_decoder body_error_string = Inr (Some [(''errors'', ISlice [IString ''boom''])])"
    "sample_decoder body_error_number =
       Inr (Some [(''errors'', ISlice [IMap [(''message'', IFloat64 5)]])])"
    by (simp_all add: sample_decoder_def table_decoder_def body_error_null_def
        body_error_string_def body_error_number_def body_errors_def body_key_null_def
        body_key_absent_def body_key_scalar_def)
  have entries: "index (Some [(''errors'', ISlice [x])]) ''errors'' = ISlice (x # [])" for x
    by (simp add: index_def)
  have name: "CreatePod_Name (CreatePodInput_zero\<lparr>Name := ''worker''\<rparr>) =
      Some (CreatePodInput_zero\<lparr>Name := ''worker''\<rparr>)"
    by (simp add: CreatePod_Name_eq)
  have malformed: "\<not> (\<exists>kvs s. INil = IMap kvs \<and> map_of kvs ''message'' = Some (IString s))"
    "\<not> (\<exists>kvs s. IString ''boom'' = IMap kvs \<and> map_of kvs ''message'' = Some (IString s))"
    "\<not> (\<exists>kvs s. IMap [(''message'', IFloat64 5)] = IMap kvs \<and>
          map_of kvs ''message'' = Some (IString s))"
    by auto
  have null: "StatusCode \<lparr>StatusCode = 200, Body = Inr body_error_null\<rparr> = 200"
    "Body \<lparr>StatusCode = 200, Body = Inr body_error_null\<rparr> = Inr body_error_null"
    and string: "StatusCode \<lparr>StatusCode = 200, Body = Inr body_error_string\<rparr> = 200"
    "Body \<lparr>StatusCode = 200, Body = Inr body_error_string\<rparr> = Inr body_error_string"
    and number: "StatusCode \<lparr>StatusCode = 200, Body = Inr body_error_number\<rparr> = 200"
    "Body \<lparr>StatusCode = 200, Body = Inr body_error_number\<rparr> = Inr body_error_number"
    by simp_all
  show ?thesis
    using malformed_first_error_panics
        [where Query' = "constant_transport (Inr \<lparr>StatusCode = 200, Body = Inr body_error_null\<rparr>)"
           and Unmarshal = sample_decoder and raw = body_error_null
           and a = "''pod1''" and bid = "1 / 2"
           and p = "CreatePodInput_zero\<lparr>Name := ''worker''\<rparr>"
           and p' = "CreatePodInput_zero\<lparr>Name := ''worker''\<rparr>",
         OF null bodies(1) entries malformed(1)]
      malformed_first_error_panics
        [where Query' = "constant_transport (Inr \<lparr>StatusCode = 200, Body = Inr body_error_string\<rparr>)"
           and Unmarshal = sample_decoder and raw = body_error_string and a = "''pod1''",
         OF string bodies(2) entries malformed(2)]
      malformed_first_error_panics
        [where Query' = "constant_transport (Inr \<lparr>StatusCode = 200, Body = Inr body_error_number\<rparr>)"
           and Unmarshal = sample_decoder and raw = body_error_number and a = "''pod1''",
         OF number bodies(3) entries malformed(3)]
      name
    by (simp add: constant_transport_def)
qed

section \<open>The name of a new pod\<close>

text \<open>
  Claim C7. When \<open>Name\<close> is empty, \<open>CreatePod\<close> sets it to the first piece of \<open>ImageName\<close>
  split at \<open>:\<close>, that is to \<open>ImageName\<close> up to its first colon, or to all of it when it has
  no colon; a non-empty \<open>Name\<close> stays as given. \<open>CreatePod\<close> then asks the transport the
  request whose variables bind \<open>input\<close> to the input with that name: what the call returns
  is what the transport answers to that very request (its error when it fails, the
  status-code error with its code and body when it answers with a status other than 200),
  and a transport that gives the same answer to that one request gives the same result.
\<close>

theorem CreatePod_sends_derived_name:
  assumes "derived = (if Name p = []
                      then p\<lparr>Name := takeWhile (\<lambda>c. c \<noteq> CHR '':'') (ImageName p)\<rparr>
                      else p)"
  shows
    "CreatePod_Name p = Some derived \<and>
     Name derived = (if Name p = [] then hd (Split (ImageName p) CHR '':'') else Name p) \<and>
     Variables (CreatePod_Input derived) = [(''input'', VCreatePodInput derived)] \<and>
     (\<forall>err. Query' (CreatePod_Input derived) = Inl err \<longrightarrow>
        CreatePod Query' Unmarshal (Some p) = (Some derived, Return None (Some (ErrQuery err)))) \<and>
     (\<forall>res raw. Query' (CreatePod_Input derived) = Inr res \<and> Body res = Inr raw \<and>
        StatusCode res \<noteq> 200 \<longrightarrow>
        CreatePod Query' Unmarshal (Some p) =
          (Some derived, Return None (Some (ErrStatusCodeBody (StatusCode res) raw)))) \<and>
     CreatePod Query' Unmarshal (Some p) =
       CreatePod (constant_transport (Query' (CreatePod_Input derived))) Unmarshal (Some p)"
proof -
  have name: "CreatePod_Name p = Some derived"
    using assms by (simp add: CreatePod_Name_eq)
  have "Name derived = (if Name p = [] then hd (Split (ImageName p) CHR '':'') else Name p)"
    using assms by (simp add: hd_Split)
  moreover have "Variables (CreatePod_Input derived) = [(''input'', VCreatePodInput derived)]"
    by (simp add: CreatePod_Input_def)
  moreover have "CreatePod Query' Unmarshal (Some p) =
      (Some derived, Return None (Some (ErrQuery err)))"
    if "Query' (CreatePod_Input derived) = Inl err" for err
    using name that by (simp add: CreatePod_def)
  moreover have "CreatePod Query' Unmarshal (Some p) =
      (Some derived, Return None (Some (ErrStatusCodeBody (StatusCode res) raw)))"
    if "Query' (CreatePod_Input derived) = Inr res" and "Body res = Inr raw"
      and "StatusCode res \<noteq> 200" for res raw
    using name that by (simp add: CreatePod_status)
  moreover have "CreatePod Query' Unmarshal (Some p) =
      CreatePod (constant_transport (Query' (CreatePod_Input derived))) Unmarshal (Some p)"
    using name by (simp add: CreatePod_def constant_transport_def)
  ultimately show ?thesis
    using name by blast
qed

theorem CreatePod_sends_derived_name_witness:
  "CreatePod name_reporting_transport sample_decoder
     (Some (CreatePodInput_zero\<lparr>ImageName := ''foo/bar:latest''\<rparr>)) =
     (Some (CreatePodInput_zero\<lparr>ImageName := ''foo/bar:latest'', Name := ''foo/bar''\<rparr>),
      Return None (Some (ErrQuery ''foo/bar''))) \<and>
   CreatePod name_reporting_transport sample_decoder
     (Some (CreatePodInput_zero\<lparr>ImageName := ''foo/bar''\<rparr>)) =
     (Some (CreatePodInput_zero\<lparr>ImageName := ''foo/bar'', Name := ''foo/bar''\<rparr>),
      Return None (Some (ErrQuery ''foo/bar''))) \<and>
   CreatePod name_reporting_transport sample_decoder
     (Some (CreatePodInput_zero\<lparr>ImageName := ''foo/bar:latest'', Name := ''worker''\<rparr>)) =
     (Some (CreatePodInput_zero\<lparr>ImageName := ''foo/bar:latest'', Name := ''worker''\<rparr>),
      Return None (Some (ErrQuery ''worker''))) \<and>
   Variables
     (CreatePod_Input (CreatePodInput_zero\<lparr>ImageName := ''foo/bar:latest'', Name := ''foo/bar''\<rparr>)) =
     [(''input'',
       VCreatePodInput (CreatePodInput_zero\<lparr>ImageName := ''foo/bar:latest'', Name := ''foo/bar''\<rparr>))] \<and>
   Split ''foo/bar:latest'' CHR '':'' = [''foo/bar'', ''latest''] \<and>
   Split ''foo/bar'' CHR '':'' = [''foo/bar'']"
proof -
  let ?tagged = "CreatePodInput_zero\<lparr>ImageName := ''foo/bar:latest''\<rparr>"
  let ?untagged = "CreatePodInput_zero\<lparr>ImageName := ''foo/bar''\<rparr>"
  let ?named = "CreatePodInput_zero\<lparr>ImageName := ''foo/bar:latest'', Name := ''worker''\<rparr>"
  have tagged: "?tagged\<lparr>Name := ''foo/bar''\<rparr> =
      (if Name ?tagged = []
       then ?tagged\<lparr>Name := takeWhile (\<lambda>c. c \<noteq> CHR '':'') (ImageName ?tagged)\<rparr>
       else ?tagged)"
    and untagged: "?untagged\<lparr>Name := ''foo/bar''\<rparr> =
      (if Name ?untagged = []
       then ?untagged\<lparr>Name := takeWhile (\<lambda>c. c \<noteq> CHR '':'') (ImageName ?untagged)\<rparr>
       else ?untagged)"
    by (simp_all add: CreatePodInput_zero_def)
  have named: "?named =
      (if Name ?named = []
       then ?named\<lparr>Name := takeWhile (\<lambda>c. c \<noteq> CHR '':'') (ImageName ?named)\<rparr>
       else ?named)"
    by simp
  have reported:
    "name_reporting_transport (CreatePod_Input (?tagged\<lparr>Name := ''foo/bar''\<rparr>)) = Inl ''foo/bar''"
    "name_reporting_transport (CreatePod_Input (?untagged\<lparr>Name := ''foo/bar''\<rparr>)) = Inl ''foo/bar''"
    "name_reporting_transport (CreatePod_Input ?named) = Inl ''worker''"
    by (simp_all add: name_reporting_transport_def CreatePod_Input_def)
  have pieces: "Split ''foo/bar:latest'' CHR '':'' = [''foo/bar'', ''latest'']"
    "Split ''foo/bar'' CHR '':'' = [''foo/bar'']"
    by simp_all
  note sent_tagged = CreatePod_sends_derived_name
      [where Query' = name_reporting_transport and Unmarshal = sample_decoder, OF tagged]
  note sent_untagged = CreatePod_sends_derived_name
      [where Query' = name_reporting_transport and Unmarshal = sample_decoder, OF untagged]
  note sent_named = CreatePod_sends_derived_name
      [where Query' = name_reporting_transport and Unmarshal = sample_decoder, OF named]
  show ?thesis
    using sent_tagged [THEN conjunct2, THEN conjunct2, THEN conjunct2, THEN conjunct1,
        rule_format, OF reported(1)]
      sent_untagged [THEN conjunct2, THEN conjunct2, THEN conjunct2, THEN conjunct1,
        rule_format, OF reported(2)]
      sent_named [THEN conjunct2, THEN conjunct2, THEN conjunct2, THEN conjunct1,
        rule_format, OF reported(3)]
      sent_tagged [THEN conjunct2, THEN conjunct2, THEN conjunct1]
      pieces
    by simp
qed

text \<open>
  Claim C9. \<open>CreatePod\<close> writes through its pointer: when \<open>Name\<close> is empty, the caller's
  struct has, after the call, the name derived from \<open>ImageName\<close> and every other field as
  before. This holds however the call ends (a transport error, a failure, a panic in the
  handling of the response, a success), since the write comes first.
\<close>

theorem CreatePod_writes_name_into_callers_input:
  assumes "Name p = []"
  shows
    "fst (CreatePod Query' Unmarshal (Some p)) =
       Some (p\<lparr>Name := takeWhile (\<lambda>c. c \<noteq> CHR '':'') (ImageName p)\<rparr>) \<and>
     (\<forall>q. fst (CreatePod Query' Unmarshal (Some p)) = Some q \<longrightarrow>
        Name q = hd (Split (ImageName p) CHR '':'') \<and>
        CloudType q = CloudType p \<and> ContainerDiskInGb q = ContainerDiskInGb p \<and>
        DeployCost q = DeployCost p \<and> DockerArgs q = DockerArgs p \<and> Env q = Env p \<and>
        GpuCount q = GpuCount p \<and> GpuTypeId q = GpuTypeId p \<and> ImageName q = ImageName p \<and>
        MinMemoryInGb q = MinMemoryInGb p \<and> MinVcpuCount q = MinVcpuCount p \<and>
        Ports q = Ports p \<and> TemplateId q = TemplateId p \<and> VolumeInGb q = VolumeInGb p \<and>
        VolumeMountPath q = VolumeMountPath p)"
  using assms by (auto simp: CreatePod_def CreatePod_Name_eq hd_Split)

theorem CreatePod_writes_name_into_callers_input_witness:
  "fst (CreatePod (constant_transport (Inl ''dial tcp: timeout'')) sample_decoder
          (Some (CreatePodInput_zero\<lparr>ImageName := ''foo/bar:latest'', GpuCount := 1\<rparr>))) =
     Some (CreatePodInput_zero\<lparr>ImageName := ''foo/bar:latest'', GpuCount := 1,
                                Name := ''foo/bar''\<rparr>)"
proof -
  have empty: "Name (CreatePodInput_zero\<lparr>ImageName := ''foo/bar:latest'', GpuCount := 1\<rparr>) = []"
    by (simp add: CreatePodInput_zero_def)
  show ?thesis
    using CreatePod_writes_name_into_callers_input
        [where Query' = "constant_transport (Inl ''dial tcp: timeout'')"
           and Unmarshal = sample_decoder, OF empty, THEN conjunct1]
    by simp
qed

section \<open>The list of pods\<close>




end
